theory Spec2Isabelle
  imports Complex_Main "HOL-Library.Word"
begin

unbundle bit_operations_syntax

section \<open>JavaScript numbers\<close>

text \<open>
  A JavaScript number is an IEEE 754 binary64 value: a finite double, one of the two
  infinities, or NaN.  A finite double is modelled by the real number it denotes
  (\<open>Finite r\<close> is a value for every real r; the numbers of a run are among those that are
  doubles).  The two zeros are one value: no operation of this program tells them apart
  (\<open>b === 0\<close> holds of both, \<open>calculate\<close> returns before it divides by a zero, and
  \<open>JSON.stringify\<close> writes both as 0).
\<close>

datatype number = Finite real | PosInfinity | NegInfinity | NaN

text \<open>The integer nearest to x, the even one when two are equally near.\<close>

definition round_half_even :: "real \<Rightarrow> int" where
  "round_half_even x =
     (if x - of_int \<lfloor>x\<rfloor> < 1 / 2 then \<lfloor>x\<rfloor>
      else if 1 / 2 < x - of_int \<lfloor>x\<rfloor> then \<lfloor>x\<rfloor> + 1
      else if even \<lfloor>x\<rfloor> then \<lfloor>x\<rfloor> else \<lfloor>x\<rfloor> + 1)"

text \<open>
  The doubles near x are the multiples of \<open>quantum x\<close>: 52 binary places below the leading
  bit of x, and \<open>2\<^sup>-\<^sup>1\<^sup>0\<^sup>7\<^sup>4\<close> for x below the least normal double \<open>2\<^sup>-\<^sup>1\<^sup>0\<^sup>2\<^sup>2\<close>.
\<close>

definition quantum :: "real \<Rightarrow> real" where
  "quantum x = 2 powr (of_int (max \<lfloor>log 2 \<bar>x\<bar>\<rfloor> (- 1022)) - 52)"

text \<open>
  The greatest double is \<open>2\<^sup>1\<^sup>0\<^sup>2\<^sup>4 - 2\<^sup>9\<^sup>7\<^sup>1\<close>; a real number whose magnitude is half a
  quantum above it, or more, is rounded to an infinity.
\<close>

definition overflow_threshold :: real where
  "overflow_threshold = 2 ^ 1024 - 2 ^ 970"

text \<open>
  The rounding of IEEE 754 (to nearest, ties to even): the value of an arithmetic
  operation whose exact result is x, and the reading of a number literal of value x by
  \<open>JSON.parse\<close>.
\<close>

definition to_double :: "real \<Rightarrow> number" where
  "to_double x =
     (if overflow_threshold \<le> \<bar>x\<bar> then (if 0 < x then PosInfinity else NegInfinity)
      else Finite (sgn x * (of_int (round_half_even (\<bar>x\<bar> / quantum x)) * quantum x)))"

text \<open>The operators \<open>+\<close>, \<open>-\<close>, \<open>*\<close> and \<open>/\<close> on numbers.\<close>

fun is_finite :: "number \<Rightarrow> bool" where
  "is_finite (Finite x) = True"
| "is_finite n = False"

fun is_negative :: "number \<Rightarrow> bool" where
  "is_negative (Finite x) = (x < 0)"
| "is_negative NegInfinity = True"
| "is_negative n = False"

definition infinity :: "bool \<Rightarrow> number" where
  "infinity negative = (if negative then NegInfinity else PosInfinity)"

fun number_negate :: "number \<Rightarrow> number" where
  "number_negate (Finite x) = Finite (- x)"
| "number_negate PosInfinity = NegInfinity"
| "number_negate NegInfinity = PosInfinity"
| "number_negate NaN = NaN"

fun number_add :: "number \<Rightarrow> number \<Rightarrow> number" where
  "number_add NaN b = NaN"
| "number_add a NaN = NaN"
| "number_add (Finite x) (Finite y) = to_double (x + y)"
| "number_add (Finite x) b = b"
| "number_add a (Finite y) = a"
| "number_add a b = (if a = b then a else NaN)"

definition number_subtract :: "number \<Rightarrow> number \<Rightarrow> number" where
  "number_subtract a b = number_add a (number_negate b)"

fun number_multiply :: "number \<Rightarrow> number \<Rightarrow> number" where
  "number_multiply NaN b = NaN"
| "number_multiply a NaN = NaN"
| "number_multiply (Finite x) (Finite y) = to_double (x * y)"
| "number_multiply a b =
     (if a = Finite 0 \<or> b = Finite 0 then NaN
      else infinity (is_negative a \<noteq> is_negative b))"

text \<open>
  The quotient of an infinity by an infinity is NaN, of a finite number by an infinity
  zero, of an infinity by a finite number an infinity.  The quotient by a zero is an
  infinity whose sign depends on the sign of the zero, or NaN for a zero dividend; the value
  given here is that for the positive zero, and \<open>calculate\<close> does not reach it.
\<close>

fun number_divide :: "number \<Rightarrow> number \<Rightarrow> number" where
  "number_divide NaN b = NaN"
| "number_divide a NaN = NaN"
| "number_divide (Finite x) (Finite y) =
     (if y = 0 then (if x = 0 then NaN else infinity (x < 0)) else to_double (x / y))"
| "number_divide (Finite x) b = Finite 0"
| "number_divide a (Finite y) = infinity (is_negative a \<noteq> (y < 0))"
| "number_divide a b = NaN"

section \<open>JavaScript values\<close>

text \<open>
  A JavaScript string is a sequence of UTF-16 code units and \<open>s.length\<close> counts them, so a
  string is modelled as the list of its code units. \<open>js\<close> embeds an ASCII literal of the
  source.  \<open>JNum r\<close> is the value of the finite number r.
\<close>

type_synonym code_unit = nat
type_synonym jsstring = "code_unit list"

definition js :: "string \<Rightarrow> jsstring" where
  "js s = map of_char s"

datatype json =
    JNull
  | JBool bool
  | JNumber number
  | JStr jsstring
  | JArr "json list"
  | JObj "(jsstring \<times> json) list"

abbreviation JNum :: "real \<Rightarrow> json" where
  "JNum r \<equiv> JNumber (Finite r)"

text \<open>
  Reading a property of an object; \<open>None\<close> is JavaScript's \<open>undefined\<close>.  An object
  is the list of its entries, each key once, as \<open>JSON.parse\<close> leaves it.
\<close>

definition property :: "(jsstring \<times> json) list \<Rightarrow> string \<Rightarrow> json option" where
  "property kvs k = map_of kvs (js k)"

text \<open>The values for which \<open>v || d\<close> evaluates to \<open>d\<close>.\<close>

fun falsy :: "json \<Rightarrow> bool" where
  "falsy JNull = True"
| "falsy (JBool b) = (\<not> b)"
| "falsy (JNumber n) = (n = Finite 0 \<or> n = NaN)"
| "falsy (JStr s) = (s = [])"
| "falsy (JArr xs) = False"
| "falsy (JObj kvs) = False"

text \<open>\<open>a || b\<close> on strings that may be undefined: the empty string is falsy too.\<close>

definition or_else :: "jsstring option \<Rightarrow> jsstring option \<Rightarrow> jsstring option" where
  "or_else a b = (case a of Some s \<Rightarrow> if s \<noteq> [] then Some s else b | None \<Rightarrow> b)"

section \<open>The zod validation library, as far as the schemas of the repository use it\<close>

datatype zod_code =
  invalid_type | invalid_literal | invalid_union | invalid_enum_value
  | too_small | too_big | custom

text \<open>
  An issue: its code, the path of the offending value, and the message the schema gives
  for the failed check (\<open>None\<close> when the schema gives none and zod's error map chooses).
\<close>

datatype path_part = Key jsstring | Index nat

datatype zod_issue = ZodIssue zod_code "path_part list" "jsstring option"

type_synonym 'a safeParse = "zod_issue list + 'a"

text \<open>
  What the code takes from its platform and libraries without defining it: the JSON codec
  (\<open>JSON_parse\<close> reads a text, \<open>None\<close> when it throws; \<open>JSON_text\<close> is the text of a value
  of JSON), the text of a \<open>ZodError\<close> and zod's default issue messages.
\<close>

record platform =
  JSON_parse :: "jsstring \<Rightarrow> json option"
  JSON_text :: "json \<Rightarrow> jsstring"
  ZodError_message :: "zod_issue list \<Rightarrow> jsstring"
  zod_errorMap :: "zod_issue \<Rightarrow> jsstring"

text \<open>
  \<open>JSON.stringify\<close>: JSON has no text for an infinity or NaN, and a number that is not
  finite is written as \<open>null\<close>, wherever in the value it stands.  \<open>written v\<close> is the value
  whose text is written for v, which is also what \<open>JSON.parse\<close> reads back from that text.
\<close>

primrec written :: "json \<Rightarrow> json" where
  "written JNull = JNull"
| "written (JBool b) = JBool b"
| "written (JNumber n) = (if is_finite n then JNumber n else JNull)"
| "written (JStr s) = JStr s"
| "written (JArr xs) = JArr (map written xs)"
| "written (JObj kvs) = JObj (map (map_prod id written) kvs)"

definition JSON_stringify :: "platform \<Rightarrow> json \<Rightarrow> jsstring" where
  "JSON_stringify lib v = JSON_text lib (written v)"

definition issue_message :: "platform \<Rightarrow> zod_issue \<Rightarrow> jsstring" where
  "issue_message lib i = (case i of ZodIssue c p m \<Rightarrow>
     (case m of Some s \<Rightarrow> s | None \<Rightarrow> zod_errorMap lib i))"

text \<open>An object schema validates every key and reports the issues of all of them.\<close>

fun zod_and :: "'a safeParse \<Rightarrow> 'b safeParse \<Rightarrow> ('a \<times> 'b) safeParse" where
  "zod_and (Inr a) (Inr b) = Inr (a, b)"
| "zod_and (Inl e) (Inr b) = Inl e"
| "zod_and (Inr a) (Inl e) = Inl e"
| "zod_and (Inl e) (Inl e') = Inl (e @ e')"

text \<open>\<open>z.string()\<close> with its \<open>min\<close> and \<open>max\<close> checks (each with its optional message).\<close>

definition z_string ::
  "(nat \<times> jsstring option) option \<Rightarrow> (nat \<times> jsstring option) option \<Rightarrow> path_part list \<Rightarrow>
   json option \<Rightarrow> jsstring safeParse" where
  "z_string lo hi path v = (case v of
      Some (JStr s) \<Rightarrow>
        (let small = (case lo of Some (n, m) \<Rightarrow>
                        if length s < n then [ZodIssue too_small path m] else [] | None \<Rightarrow> []);
             big = (case hi of Some (n, m) \<Rightarrow>
                        if n < length s then [ZodIssue too_big path m] else [] | None \<Rightarrow> [])
         in if small @ big = [] then Inr s else Inl (small @ big))
    | _ \<Rightarrow> Inl [ZodIssue invalid_type path None])"

text \<open>\<open>z.number()\<close>: any number but NaN, the infinities included.\<close>

definition z_number :: "path_part list \<Rightarrow> json option \<Rightarrow> number safeParse" where
  "z_number path v = (case v of
      Some (JNumber n) \<Rightarrow> if n = NaN then Inl [ZodIssue invalid_type path None] else Inr n
    | _ \<Rightarrow> Inl [ZodIssue invalid_type path None])"

text \<open>\<open>z.enum([...])\<close> over the listed strings.\<close>

definition z_enum :: "(string \<times> 'a) list \<Rightarrow> path_part list \<Rightarrow> json option \<Rightarrow> 'a safeParse" where
  "z_enum options path v = (case v of
      Some (JStr s) \<Rightarrow>
        (case map_of (map (\<lambda>(k, x). (js k, x)) options) s of
           Some x \<Rightarrow> Inr x
         | None \<Rightarrow> Inl [ZodIssue invalid_enum_value path None])
    | _ \<Rightarrow> Inl [ZodIssue invalid_type path None])"

text \<open>\<open>schema.optional()\<close>: an absent key is accepted as \<open>undefined\<close>.\<close>

definition z_optional :: "(json option \<Rightarrow> 'a safeParse) \<Rightarrow> json option \<Rightarrow> 'a option safeParse" where
  "z_optional schema v = (case v of
      None \<Rightarrow> Inr None
    | Some j \<Rightarrow> (case schema (Some j) of Inl e \<Rightarrow> Inl e | Inr x \<Rightarrow> Inr (Some x)))"

section \<open>types/mcp.ts\<close>

text \<open>The id of a request or response; \<open>IdNumber r\<close> is the finite number r.\<close>

datatype rpc_id = IdNull | IdString jsstring | IdNum number

abbreviation IdNumber :: "real \<Rightarrow> rpc_id" where
  "IdNumber r \<equiv> IdNum (Finite r)"

record JsonRpcRequest =
  req_jsonrpc :: jsstring
  req_id :: "rpc_id option"
  req_method :: jsstring
  req_params :: "(jsstring \<times> json) list option"

text \<open>
  \<open>JsonRpcRequestSchema\<close>: \<open>jsonrpc\<close> is the literal '2.0', \<open>id\<close> an optional string,
  number or null, \<open>method\<close> a string, \<open>params\<close> an optional record.
\<close>

definition z_literal_2_0 :: "path_part list \<Rightarrow> json option \<Rightarrow> jsstring safeParse" where
  "z_literal_2_0 path v = (case v of
      Some (JStr s) \<Rightarrow> if s = js ''2.0'' then Inr s else Inl [ZodIssue invalid_literal path None]
    | _ \<Rightarrow> Inl [ZodIssue invalid_literal path None])"

definition z_id :: "path_part list \<Rightarrow> json option \<Rightarrow> rpc_id safeParse" where
  "z_id path v = (case v of
      Some (JStr s) \<Rightarrow> Inr (IdString s)
    | Some (JNumber n) \<Rightarrow>
        if n = NaN then Inl [ZodIssue invalid_union path None] else Inr (IdNum n)
    | Some JNull \<Rightarrow> Inr IdNull
    | _ \<Rightarrow> Inl [ZodIssue invalid_union path None])"

definition z_record :: "path_part list \<Rightarrow> json option \<Rightarrow> (jsstring \<times> json) list safeParse" where
  "z_record path v = (case v of
      Some (JObj kvs) \<Rightarrow> Inr kvs
    | _ \<Rightarrow> Inl [ZodIssue invalid_type path None])"

definition JsonRpcRequestSchema :: "json \<Rightarrow> JsonRpcRequest safeParse" where
  "JsonRpcRequestSchema body = (case body of
      JObj kvs \<Rightarrow>
        (case zod_and (z_literal_2_0 [Key (js ''jsonrpc'')] (property kvs ''jsonrpc''))
               (zod_and (z_optional (z_id [Key (js ''id'')]) (property kvs ''id''))
                 (zod_and (z_string None None [Key (js ''method'')] (property kvs ''method''))
                          (z_optional (z_record [Key (js ''params'')]) (property kvs ''params'')))) of
           Inl e \<Rightarrow> Inl e
         | Inr (v, i, m, p) \<Rightarrow>
             Inr \<lparr>req_jsonrpc = v, req_id = i, req_method = m, req_params = p\<rparr>)
    | _ \<Rightarrow> Inl [ZodIssue invalid_type [] None])"

datatype error_data = IssuesData "zod_issue list" | MessageData jsstring

record JsonRpcError =
  err_code :: int
  err_message :: jsstring
  err_data :: "error_data option"

record McpInitializeResult =
  init_protocolVersion :: jsstring
  init_tools_listChanged :: bool
  init_serverInfo_name :: jsstring
  init_serverInfo_version :: jsstring

record McpTool =
  tool_name :: jsstring
  tool_description :: jsstring
  tool_inputSchema :: json

record McpContent =
  content_type :: jsstring
  content_text :: "jsstring option"

record McpToolResult =
  tr_content :: "McpContent list"
  tr_isError :: "bool option"

text \<open>The values the handlers pass to \<open>createResponse\<close> as \<open>result\<close>.\<close>

datatype rpc_result =
    InitializeResult McpInitializeResult
  | ToolsListResult "McpTool list"
  | ToolCallResult McpToolResult
  | EmptyObject

record JsonRpcResponse =
  res_jsonrpc :: jsstring
  res_id :: rpc_id
  res_result :: "rpc_result option"
  res_error :: "JsonRpcError option"

definition PARSE_ERROR :: int where "PARSE_ERROR = - 32700"
definition INVALID_REQUEST :: int where "INVALID_REQUEST = - 32600"
definition METHOD_NOT_FOUND :: int where "METHOD_NOT_FOUND = - 32601"
definition INVALID_PARAMS :: int where "INVALID_PARAMS = - 32602"
definition INTERNAL_ERROR :: int where "INTERNAL_ERROR = - 32603"

text \<open>What a tool handler can throw: \<open>InvalidParamsError\<close>, or any other error.\<close>

datatype thrown = InvalidParamsError jsstring | OtherError jsstring | NotAnError

section \<open>tools/index.ts\<close>

subsection \<open>Input schemas\<close>

datatype operation = Op_add | Op_subtract | Op_multiply | Op_divide

definition operation_name :: "operation \<Rightarrow> jsstring" where
  "operation_name operation = (case operation of
      Op_add \<Rightarrow> js ''add'' | Op_subtract \<Rightarrow> js ''subtract''
    | Op_multiply \<Rightarrow> js ''multiply'' | Op_divide \<Rightarrow> js ''divide'')"

definition EchoInputSchema :: "json \<Rightarrow> jsstring safeParse" where
  "EchoInputSchema args = (case args of
      JObj kvs \<Rightarrow> z_string (Some (1, None)) (Some (10000, None)) [Key (js ''text'')] (property kvs ''text'')
    | _ \<Rightarrow> Inl [ZodIssue invalid_type [] None])"

definition CalculateInputSchema :: "json \<Rightarrow> (operation \<times> number \<times> number) safeParse" where
  "CalculateInputSchema args = (case args of
      JObj kvs \<Rightarrow>
        zod_and (z_enum [(''add'', Op_add), (''subtract'', Op_subtract),
                         (''multiply'', Op_multiply), (''divide'', Op_divide)]
                   [Key (js ''operation'')] (property kvs ''operation''))
          (zod_and (z_number [Key (js ''a'')] (property kvs ''a''))
                   (z_number [Key (js ''b'')] (property kvs ''b'')))
    | _ \<Rightarrow> Inl [ZodIssue invalid_type [] None])"

definition TextStatsInputSchema :: "json \<Rightarrow> jsstring safeParse" where
  "TextStatsInputSchema args = (case args of
      JObj kvs \<Rightarrow> z_string (Some (1, None)) (Some (50000, None)) [Key (js ''text'')] (property kvs ''text'')
    | _ \<Rightarrow> Inl [ZodIssue invalid_type [] None])"

subsection \<open>Tool definitions for discovery\<close>

definition string_schema :: "string \<Rightarrow> nat \<Rightarrow> nat \<Rightarrow> json" where
  "string_schema description lo hi =
     JObj [(js ''type'', JStr (js ''string'')), (js ''description'', JStr (js description)),
           (js ''minLength'', JNum (real lo)), (js ''maxLength'', JNum (real hi))]"

definition object_schema :: "(string \<times> json) list \<Rightarrow> string list \<Rightarrow> json" where
  "object_schema properties required =
     JObj [(js ''type'', JStr (js ''object'')),
           (js ''properties'', JObj (map (\<lambda>(k, v). (js k, v)) properties)),
           (js ''required'', JArr (map (\<lambda>k. JStr (js k)) required))]"

definition toolDefinitions :: "McpTool list" where
  "toolDefinitions =
    [\<lparr>tool_name = js ''echo'',
      tool_description = js ''Returns the input text back. Useful for testing connectivity.'',
      tool_inputSchema =
        object_schema [(''text'', string_schema ''The text to echo back'' 1 10000)] [''text'']\<rparr>,
     \<lparr>tool_name = js ''get_current_time'',
      tool_description = js ''Returns the current UTC timestamp in ISO 8601 format.'',
      tool_inputSchema = object_schema [] []\<rparr>,
     \<lparr>tool_name = js ''calculate'',
      tool_description =
        js ''Performs basic arithmetic operations: add, subtract, multiply, divide.'',
      tool_inputSchema =
        object_schema
          [(''operation'',
            JObj [(js ''type'', JStr (js ''string'')),
                  (js ''enum'', JArr [JStr (js ''add''), JStr (js ''subtract''),
                                      JStr (js ''multiply''), JStr (js ''divide'')]),
                  (js ''description'', JStr (js ''The arithmetic operation to perform''))]),
           (''a'', JObj [(js ''type'', JStr (js ''number'')),
                         (js ''description'', JStr (js ''First operand''))]),
           (''b'', JObj [(js ''type'', JStr (js ''number'')),
                         (js ''description'', JStr (js ''Second operand''))])]
          [''operation'', ''a'', ''b'']\<rparr>,
     \<lparr>tool_name = js ''generate_uuid'',
      tool_description = js ''Generates a random UUID v4.'',
      tool_inputSchema = object_schema [] []\<rparr>,
     \<lparr>tool_name = js ''text_stats'',
      tool_description = js (''Analyzes text and returns statistics: character count, '' @
        ''word count, sentence count, and average word length.''),
      tool_inputSchema =
        object_schema [(''text'', string_schema ''The text to analyze'' 1 50000)] [''text'']\<rparr>]"

subsection \<open>Tool implementations\<close>

text \<open>
  What a tool reads from the world while it runs: the clock (\<open>new Date().toISOString()\<close>
  and \<open>Date.now()\<close>) and the values of the successive calls of \<open>Math.random()\<close>.
\<close>

record world =
  Date_toISOString :: jsstring
  Date_now :: real
  Math_random :: "nat \<Rightarrow> real"

definition text_content :: "jsstring \<Rightarrow> McpContent" where
  "text_content t = \<lparr>content_type = js ''text'', content_text = Some t\<rparr>"

definition invalid_input :: "platform \<Rightarrow> zod_issue list \<Rightarrow> McpToolResult" where
  "invalid_input lib issues =
     \<lparr>tr_content = [text_content (js ''Invalid input: '' @ ZodError_message lib issues)],
      tr_isError = Some True\<rparr>"

definition echo :: "platform \<Rightarrow> json \<Rightarrow> McpToolResult" where
  "echo lib args = (case EchoInputSchema args of
      Inl issues \<Rightarrow> invalid_input lib issues
    | Inr t \<Rightarrow> \<lparr>tr_content = [text_content t], tr_isError = None\<rparr>)"

definition getCurrentTime :: "platform \<Rightarrow> world \<Rightarrow> McpToolResult" where
  "getCurrentTime lib w =
     \<lparr>tr_content = [text_content (JSON_stringify lib
        (JObj [(js ''utc'', JStr (Date_toISOString w)), (js ''timestamp'', JNum (Date_now w))]))],
      tr_isError = None\<rparr>"

definition calculate :: "platform \<Rightarrow> json \<Rightarrow> McpToolResult" where
  "calculate lib args = (case CalculateInputSchema args of
      Inl issues \<Rightarrow> invalid_input lib issues
    | Inr (operation, a, b) \<Rightarrow>
        (let answer = (\<lambda>result.
               \<lparr>tr_content = [text_content (JSON_stringify lib
                  (JObj [(js ''operation'', JStr (operation_name operation)),
                         (js ''a'', JNumber a), (js ''b'', JNumber b),
                         (js ''result'', JNumber result)]))],
                tr_isError = None\<rparr>)
         in case operation of
              Op_add \<Rightarrow> answer (number_add a b)
            | Op_subtract \<Rightarrow> answer (number_subtract a b)
            | Op_multiply \<Rightarrow> answer (number_multiply a b)
            | Op_divide \<Rightarrow>
                if b = Finite 0
                then \<lparr>tr_content = [text_content (js ''Error: Division by zero'')],
                      tr_isError = Some True\<rparr>
                else answer (number_divide a b)))"

text \<open>\<open>x | 0\<close>: the number truncated towards zero and wrapped to a signed 32-bit integer.\<close>

definition bitor_zero :: "real \<Rightarrow> int" where
  "bitor_zero x = sint (word_of_int (if x < 0 then \<lceil>x\<rceil> else \<lfloor>x\<rfloor>) :: 32 word)"

text \<open>\<open>v.toString(16)\<close> of an integer.\<close>

definition hex_digit :: "nat \<Rightarrow> code_unit" where
  "hex_digit d = (if d < 10 then 48 + d else 87 + d)"

function toString16_nat :: "nat \<Rightarrow> jsstring" where
  "toString16_nat n =
     (if n < 16 then [hex_digit n] else toString16_nat (n div 16) @ [hex_digit (n mod 16)])"
  by pat_completeness auto
termination
  by (relation "measure (\<lambda>n. n)") auto

declare toString16_nat.simps [simp del]

definition toString16 :: "int \<Rightarrow> jsstring" where
  "toString16 v = (if v < 0 then 45 # toString16_nat (nat (- v)) else toString16_nat (nat v))"

text \<open>The callback of \<open>replace\<close>, applied to a matched character and the next random value.\<close>

definition uuid_digit :: "code_unit \<Rightarrow> real \<Rightarrow> jsstring" where
  "uuid_digit c random =
     (let r = bitor_zero (random * 16);
          v = (if c = 120 then r else (r AND 3) OR 8)
      in toString16 v)"

text \<open>
  \<open>template.replace(/[xy]/g, callback)\<close>: every x and y is replaced, from left to right,
  each replacement drawing the next value of the random source.
\<close>

fun replace_xy :: "jsstring \<Rightarrow> (nat \<Rightarrow> real) \<Rightarrow> nat \<Rightarrow> jsstring" where
  "replace_xy [] random k = []"
| "replace_xy (c # cs) random k =
     (if c = 120 \<or> c = 121 then uuid_digit c (random k) @ replace_xy cs random (Suc k)
      else c # replace_xy cs random k)"

definition uuid_of :: "(nat \<Rightarrow> real) \<Rightarrow> jsstring" where
  "uuid_of random = replace_xy (js ''xxxxxxxx-xxxx-4xxx-yxxx-xxxxxxxxxxxx'') random 0"

definition generateUuid :: "platform \<Rightarrow> world \<Rightarrow> McpToolResult" where
  "generateUuid lib w =
     \<lparr>tr_content = [text_content (JSON_stringify lib
        (JObj [(js ''uuid'', JStr (uuid_of (Math_random w)))]))],
      tr_isError = None\<rparr>"

text \<open>
  The code units that \<open>\s\<close> matches and that \<open>trim\<close> strips: ECMAScript's white space
  and line terminators.
\<close>

definition is_space :: "code_unit \<Rightarrow> bool" where
  "is_space c \<longleftrightarrow>
     (9 \<le> c \<and> c \<le> 13) \<or> c = 32 \<or> c = 160 \<or> c = 5760 \<or> (8192 \<le> c \<and> c \<le> 8202) \<or>
     c = 8232 \<or> c = 8233 \<or> c = 8239 \<or> c = 8287 \<or> c = 12288 \<or> c = 65279"

text \<open>The characters of the class \<open>[.!?]\<close>.\<close>

definition is_terminator :: "code_unit \<Rightarrow> bool" where
  "is_terminator c \<longleftrightarrow> c = 46 \<or> c = 33 \<or> c = 63"

definition trim :: "jsstring \<Rightarrow> jsstring" where
  "trim s = rev (dropWhile is_space (rev (dropWhile is_space s)))"

text \<open>
  \<open>s.split(/[class]+/)\<close>: the text before the first match, then the split of what follows
  the match, the match being the longest run of characters of the class; a string with no
  match is returned whole, the empty string included.
\<close>

function split_re :: "('a \<Rightarrow> bool) \<Rightarrow> 'a list \<Rightarrow> 'a list list" where
  "split_re sep s = (case dropWhile (\<lambda>c. \<not> sep c) s of
      [] \<Rightarrow> [s]
    | c # rest \<Rightarrow> takeWhile (\<lambda>c. \<not> sep c) s # split_re sep (dropWhile sep rest))"
  by pat_completeness auto
termination
proof (relation "measure (\<lambda>(sep, s). length s)")
  show "wf (measure (\<lambda>(sep :: 'a \<Rightarrow> bool, s). length s))" by simp
next
  fix sep :: "'a \<Rightarrow> bool" and s :: "'a list" and c rest
  assume found: "dropWhile (\<lambda>c. \<not> sep c) s = c # rest"
  have "length (dropWhile (\<lambda>c. \<not> sep c) s) \<le> length s"
    by (rule length_dropWhile_le)
  with found have "length rest < length s" by simp
  moreover have "length (dropWhile sep rest) \<le> length rest"
    by (rule length_dropWhile_le)
  ultimately show "((sep, dropWhile sep rest), (sep, s)) \<in> measure (\<lambda>(sep, s). length s)"
    by simp
qed

declare split_re.simps [simp del]

text \<open>
  \<open>x.toFixed(2)\<close> read back by \<open>parseFloat\<close>: the multiple of 1/100 nearest to x, the one
  larger in magnitude when two are equally near.  The mean word length of \<open>textStats\<close> and
  this rounding of it are taken over the real numbers.
\<close>

definition toFixed2 :: "real \<Rightarrow> real" where
  "toFixed2 x = (if x < 0 then - (of_int \<lfloor>- x * 100 + 1 / 2\<rfloor> / 100)
                 else of_int \<lfloor>x * 100 + 1 / 2\<rfloor> / 100)"

definition textStats :: "platform \<Rightarrow> json \<Rightarrow> McpToolResult" where
  "textStats lib args = (case TextStatsInputSchema args of
      Inl issues \<Rightarrow> invalid_input lib issues
    | Inr t \<Rightarrow>
        (let characters = length t;
             words = filter (\<lambda>w. 0 < length w) (split_re is_space (trim t));
             wordCount = length words;
             sentences = length (filter (\<lambda>s. 0 < length (trim s)) (split_re is_terminator t));
             avgWordLength =
               (if 0 < wordCount
                then toFixed2 (real (foldl (\<lambda>sum w. sum + length w) 0 words) / real wordCount)
                else 0)
         in \<lparr>tr_content = [text_content (JSON_stringify lib
               (JObj [(js ''characters'', JNum (real characters)),
                      (js ''words'', JNum (real wordCount)),
                      (js ''sentences'', JNum (real sentences)),
                      (js ''averageWordLength'', JNum avgWordLength)]))],
             tr_isError = None\<rparr>))"

subsection \<open>Tool router\<close>

definition executeTool :: "platform \<Rightarrow> world \<Rightarrow> jsstring \<Rightarrow> json \<Rightarrow> McpToolResult" where
  "executeTool lib w name args =
     (if name = js ''echo'' then echo lib args
      else if name = js ''get_current_time'' then getCurrentTime lib w
      else if name = js ''calculate'' then calculate lib args
      else if name = js ''generate_uuid'' then generateUuid lib w
      else if name = js ''text_stats'' then textStats lib args
      else \<lparr>tr_content = [text_content (js ''Unknown tool: '' @ name)], tr_isError = Some True\<rparr>)"

section \<open>functions/mcp.ts\<close>

definition SERVER_INFO_name :: jsstring where "SERVER_INFO_name = js ''chatgpt-mcp-server''"
definition SERVER_INFO_version :: jsstring where "SERVER_INFO_version = js ''1.0.0''"
definition PROTOCOL_VERSION :: jsstring where "PROTOCOL_VERSION = js ''2024-11-05''"

definition ALLOWED_ORIGINS :: "jsstring list" where
  "ALLOWED_ORIGINS = [js ''https://chat.openai.com'', js ''https://chatgpt.com'']"

definition getCorsHeaders :: "jsstring option \<Rightarrow> (jsstring \<times> jsstring) list" where
  "getCorsHeaders origin =
     (let allowedOrigin = (case origin of
            Some orig \<Rightarrow> if orig \<noteq> [] \<and> orig \<in> set ALLOWED_ORIGINS then orig
                         else hd ALLOWED_ORIGINS
          | None \<Rightarrow> hd ALLOWED_ORIGINS)
      in [(js ''Access-Control-Allow-Origin'', allowedOrigin),
          (js ''Access-Control-Allow-Methods'', js ''POST, OPTIONS''),
          (js ''Access-Control-Allow-Headers'', js ''Content-Type, Authorization''),
          (js ''Access-Control-Allow-Credentials'', js ''true''),
          (js ''Content-Type'', js ''application/json'')])"

definition createResponse :: "rpc_id \<Rightarrow> rpc_result \<Rightarrow> JsonRpcResponse" where
  "createResponse i r =
     \<lparr>res_jsonrpc = js ''2.0'', res_id = i, res_result = Some r, res_error = None\<rparr>"

definition createErrorResponse ::
  "rpc_id \<Rightarrow> int \<Rightarrow> jsstring \<Rightarrow> error_data option \<Rightarrow> JsonRpcResponse" where
  "createErrorResponse i c m d =
     \<lparr>res_jsonrpc = js ''2.0'', res_id = i, res_result = None,
      res_error = Some \<lparr>err_code = c, err_message = m, err_data = d\<rparr>\<rparr>"

definition handleInitialize :: "rpc_id \<Rightarrow> JsonRpcResponse" where
  "handleInitialize i = createResponse i (InitializeResult
     \<lparr>init_protocolVersion = PROTOCOL_VERSION, init_tools_listChanged = False,
      init_serverInfo_name = SERVER_INFO_name, init_serverInfo_version = SERVER_INFO_version\<rparr>)"

definition handleToolsList :: "rpc_id \<Rightarrow> JsonRpcResponse" where
  "handleToolsList i = createResponse i (ToolsListResult toolDefinitions)"

text \<open>
  \<open>handleToolsCall\<close>, with the tool router it calls as its first argument: the router
  returns a tool result or throws.  \<open>params.arguments || {}\<close> replaces a missing or falsy
  value by the empty object.
\<close>

definition handleToolsCall_using ::
  "(jsstring \<Rightarrow> json \<Rightarrow> thrown + McpToolResult) \<Rightarrow> rpc_id \<Rightarrow>
   (jsstring \<times> json) list option \<Rightarrow> JsonRpcResponse" where
  "handleToolsCall_using router i params = (case params of
      None \<Rightarrow> createErrorResponse i INVALID_PARAMS (js ''Missing required parameter: name'') None
    | Some kvs \<Rightarrow>
        (case property kvs ''name'' of
           Some (JStr name) \<Rightarrow>
             (let arguments = (case property kvs ''arguments'' of
                     None \<Rightarrow> JObj []
                   | Some a \<Rightarrow> if falsy a then JObj [] else a);
                  toolExists = (\<exists>t \<in> set toolDefinitions. tool_name t = name)
              in if \<not> toolExists
                 then createErrorResponse i INVALID_PARAMS (js ''Unknown tool: '' @ name) None
                 else (case router name arguments of
                         Inr result \<Rightarrow> createResponse i (ToolCallResult result)
                       | Inl (InvalidParamsError message) \<Rightarrow>
                           createErrorResponse i INVALID_PARAMS (js ''Invalid params'')
                             (Some (MessageData message))
                       | Inl (OtherError message) \<Rightarrow>
                           createErrorResponse i INTERNAL_ERROR (js ''Internal error'')
                             (Some (MessageData message))
                       | Inl NotAnError \<Rightarrow>
                           createErrorResponse i INTERNAL_ERROR (js ''Internal error'')
                             (Some (MessageData (js ''Unknown error'')))))
         | _ \<Rightarrow>
             createErrorResponse i INVALID_PARAMS (js ''Missing required parameter: name'') None))"

text \<open>The router of tools/index.ts returns a result for every name and never throws.\<close>

definition handleToolsCall ::
  "platform \<Rightarrow> world \<Rightarrow> rpc_id \<Rightarrow> (jsstring \<times> json) list option \<Rightarrow> JsonRpcResponse" where
  "handleToolsCall lib w = handleToolsCall_using (\<lambda>name args. Inr (executeTool lib w name args))"

definition handlePing :: "rpc_id \<Rightarrow> JsonRpcResponse" where
  "handlePing i = createResponse i EmptyObject"

text \<open>
  The event of the hosting runtime and the response handed back to it.  The response body
  is either the empty string or \<open>JSON.stringify\<close> of an envelope; the model keeps the
  envelope as its text presents it (\<open>written_response\<close>): an id that is not a finite
  number is written as \<open>null\<close>, and so is such a number in the schema of a tool.  The other
  members of an envelope are strings, booleans and integers.
\<close>

record HandlerEvent =
  ev_httpMethod :: jsstring
  ev_headers :: "jsstring \<Rightarrow> jsstring option"
  ev_body :: "jsstring option"

datatype response_body = EmptyBody | JsonBody JsonRpcResponse

definition finite_id :: "rpc_id \<Rightarrow> bool" where
  "finite_id i = (case i of IdNum n \<Rightarrow> is_finite n | _ \<Rightarrow> True)"

definition written_id :: "rpc_id \<Rightarrow> rpc_id" where
  "written_id i = (if finite_id i then i else IdNull)"

definition written_result :: "rpc_result \<Rightarrow> rpc_result" where
  "written_result r = (case r of
      ToolsListResult tools \<Rightarrow>
        ToolsListResult
          (map (\<lambda>t. t\<lparr>tool_inputSchema := written (tool_inputSchema t)\<rparr>) tools)
    | _ \<Rightarrow> r)"

definition written_response :: "JsonRpcResponse \<Rightarrow> JsonRpcResponse" where
  "written_response r =
     r\<lparr>res_id := written_id (res_id r), res_result := map_option written_result (res_result r)\<rparr>"

definition JSON_stringify_response :: "JsonRpcResponse \<Rightarrow> response_body" where
  "JSON_stringify_response r = JsonBody (written_response r)"

record HandlerResponse =
  statusCode :: nat
  headers :: "(jsstring \<times> jsstring) list"
  body :: response_body

text \<open>\<open>event.body || '{}'\<close>: the text handed to \<open>JSON.parse\<close>.\<close>

definition body_or_default :: "jsstring option \<Rightarrow> jsstring" where
  "body_or_default b = (case b of Some s \<Rightarrow> if s \<noteq> [] then s else js ''{}'' | None \<Rightarrow> js ''{}'')"

definition handler :: "platform \<Rightarrow> world \<Rightarrow> HandlerEvent \<Rightarrow> HandlerResponse" where
  "handler lib w event =
     (let origin = or_else (ev_headers event (js ''origin'')) (ev_headers event (js ''Origin''));
          corsHeaders = getCorsHeaders origin
      in if ev_httpMethod event = js ''OPTIONS''
         then \<lparr>statusCode = 204, headers = corsHeaders, body = EmptyBody\<rparr>
         else if ev_httpMethod event \<noteq> js ''POST''
         then \<lparr>statusCode = 405, headers = corsHeaders,
               body = JSON_stringify_response (createErrorResponse IdNull INVALID_REQUEST
                                                 (js ''Method not allowed'') None)\<rparr>
         else (case JSON_parse lib (body_or_default (ev_body event)) of
            None \<Rightarrow>
              \<lparr>statusCode = 400, headers = corsHeaders,
               body = JSON_stringify_response
                        (createErrorResponse IdNull PARSE_ERROR (js ''Invalid JSON'') None)\<rparr>
          | Some parsed \<Rightarrow>
              (case JsonRpcRequestSchema parsed of
                 Inl issues \<Rightarrow>
                   \<lparr>statusCode = 400, headers = corsHeaders,
                    body = JSON_stringify_response
                             (createErrorResponse IdNull INVALID_REQUEST
                                (js ''Invalid JSON-RPC request'') (Some (IssuesData issues)))\<rparr>
               | Inr request \<Rightarrow>
                   (case req_id request of
                      None \<Rightarrow> \<lparr>statusCode = 204, headers = corsHeaders, body = EmptyBody\<rparr>
                    | Some IdNull \<Rightarrow> \<lparr>statusCode = 204, headers = corsHeaders, body = EmptyBody\<rparr>
                    | Some i \<Rightarrow>
                        (let response =
                           (if req_method request = js ''initialize'' then handleInitialize i
                            else if req_method request = js ''tools/list'' then handleToolsList i
                            else if req_method request = js ''tools/call''
                              then handleToolsCall lib w i (req_params request)
                            else if req_method request = js ''ping'' then handlePing i
                            else createErrorResponse i METHOD_NOT_FOUND
                                   (js ''Method not found: '' @ req_method request) None)
                         in \<lparr>statusCode = 200, headers = corsHeaders,
                             body = JSON_stringify_response response\<rparr>)))))"

section \<open>types/memory.ts\<close>

datatype MemoryType = Preference | Profile | Task | Note | Fact

definition MemoryTypeSchema :: "path_part list \<Rightarrow> json option \<Rightarrow> MemoryType safeParse" where
  "MemoryTypeSchema = z_enum [(''preference'', Preference), (''profile'', Profile),
                              (''task'', Task), (''note'', Note), (''fact'', Fact)]"

record MemoryRecord =
  mem_id :: jsstring
  mem_user_id :: jsstring
  mem_session_id :: "jsstring option"
  mem_type :: MemoryType
  mem_content :: jsstring
  mem_tags :: "jsstring list option"
  mem_importance :: "real option"
  mem_created_at :: jsstring
  mem_updated_at :: jsstring

record MemoryOutput =
  out_id :: jsstring
  out_userId :: jsstring
  out_sessionId :: "jsstring option"
  out_type :: MemoryType
  out_content :: jsstring
  out_tags :: "jsstring list option"
  out_importance :: "real option"
  out_createdAt :: jsstring
  out_updatedAt :: jsstring

definition toMemoryOutput :: "MemoryRecord \<Rightarrow> MemoryOutput" where
  "toMemoryOutput record =
     \<lparr>out_id = mem_id record, out_userId = mem_user_id record,
      out_sessionId = mem_session_id record, out_type = mem_type record,
      out_content = mem_content record, out_tags = mem_tags record,
      out_importance = mem_importance record, out_createdAt = mem_created_at record,
      out_updatedAt = mem_updated_at record\<rparr>"

text \<open>\<open>z.array(z.string())\<close>.\<close>

definition z_string_array :: "path_part list \<Rightarrow> json option \<Rightarrow> jsstring list safeParse" where
  "z_string_array path v = (case v of
      Some (JArr xs) \<Rightarrow>
        (let issues = concat (map (\<lambda>(k, x). case x of JStr s \<Rightarrow> []
                                   | _ \<Rightarrow> [ZodIssue invalid_type (path @ [Index k]) None])
                                (enumerate 0 xs))
         in if issues = [] then Inr (concat (map (\<lambda>x. case x of JStr s \<Rightarrow> [s] | _ \<Rightarrow> []) xs))
            else Inl issues)
    | _ \<Rightarrow> Inl [ZodIssue invalid_type path None])"

text \<open>\<open>z.number().int().min(lo).max(hi)\<close>.\<close>

definition z_int_range :: "int \<Rightarrow> int \<Rightarrow> path_part list \<Rightarrow> json option \<Rightarrow> real safeParse" where
  "z_int_range lo hi path v = (case v of
      Some (JNumber (Finite n)) \<Rightarrow>
        (let fraction = (if n = of_int \<lfloor>n\<rfloor> then [] else [ZodIssue invalid_type path None]);
             small = (if n < of_int lo then [ZodIssue too_small path None] else []);
             big = (if of_int hi < n then [ZodIssue too_big path None] else [])
         in if fraction @ small @ big = [] then Inr n else Inl (fraction @ small @ big))
    | Some (JNumber PosInfinity) \<Rightarrow>
        Inl [ZodIssue invalid_type path None, ZodIssue too_big path None]
    | Some (JNumber NegInfinity) \<Rightarrow>
        Inl [ZodIssue invalid_type path None, ZodIssue too_small path None]
    | _ \<Rightarrow> Inl [ZodIssue invalid_type path None])"

text \<open>\<open>schema.optional().default(d)\<close>: an absent key is read as d.\<close>

definition z_default :: "'a \<Rightarrow> (json option \<Rightarrow> 'a safeParse) \<Rightarrow> json option \<Rightarrow> 'a safeParse" where
  "z_default d schema v = (case v of None \<Rightarrow> Inr d | Some j \<Rightarrow> schema (Some j))"

record MemorySaveInput =
  save_userId :: jsstring
  save_content :: jsstring
  save_type :: MemoryType
  save_tags :: "jsstring list option"
  save_importance :: real
  save_sessionId :: "jsstring option"

definition MemorySaveInputSchema :: "json \<Rightarrow> MemorySaveInput safeParse" where
  "MemorySaveInputSchema args = (case args of
      JObj kvs \<Rightarrow>
        (case zod_and (z_string (Some (1, Some (js ''userId is required''))) None
                         [Key (js ''userId'')] (property kvs ''userId''))
               (zod_and (z_string (Some (1, Some (js ''content is required'')))
                           (Some (50000, Some (js ''content too long'')))
                           [Key (js ''content'')] (property kvs ''content''))
                 (zod_and (z_default Note (MemoryTypeSchema [Key (js ''type'')]) (property kvs ''type''))
                   (zod_and (z_optional (z_string_array [Key (js ''tags'')]) (property kvs ''tags''))
                     (zod_and (z_default 0 (z_int_range (- 10) 10 [Key (js ''importance'')])
                                 (property kvs ''importance''))
                              (z_optional (z_string None None [Key (js ''sessionId'')])
                                 (property kvs ''sessionId'')))))) of
           Inl e \<Rightarrow> Inl e
         | Inr (u, c, t, g, n, s) \<Rightarrow>
             Inr \<lparr>save_userId = u, save_content = c, save_type = t, save_tags = g,
                  save_importance = n, save_sessionId = s\<rparr>)
    | _ \<Rightarrow> Inl [ZodIssue invalid_type [] None])"

record MemoryUpdateInput =
  upd_userId :: jsstring
  upd_id :: jsstring
  upd_content :: "jsstring option"
  upd_type :: "MemoryType option"
  upd_tags :: "jsstring list option"
  upd_importance :: "real option"

definition MemoryUpdateInputSchema :: "json \<Rightarrow> MemoryUpdateInput safeParse" where
  "MemoryUpdateInputSchema args = (case args of
      JObj kvs \<Rightarrow>
        (case zod_and (z_string (Some (1, Some (js ''userId is required''))) None
                         [Key (js ''userId'')] (property kvs ''userId''))
               (zod_and (z_string (Some (1, Some (js ''id is required''))) None
                           [Key (js ''id'')] (property kvs ''id''))
                 (zod_and (z_optional (z_string (Some (1, None)) (Some (50000, None))
                                         [Key (js ''content'')]) (property kvs ''content''))
                   (zod_and (z_optional (MemoryTypeSchema [Key (js ''type'')]) (property kvs ''type''))
                     (zod_and (z_optional (z_string_array [Key (js ''tags'')]) (property kvs ''tags''))
                              (z_optional (z_int_range (- 10) 10 [Key (js ''importance'')])
                                 (property kvs ''importance'')))))) of
           Inl e \<Rightarrow> Inl e
         | Inr (u, i, c, t, g, n) \<Rightarrow>
             Inr \<lparr>upd_userId = u, upd_id = i, upd_content = c, upd_type = t, upd_tags = g,
                  upd_importance = n\<rparr>)
    | _ \<Rightarrow> Inl [ZodIssue invalid_type [] None])"

section \<open>lib/supabase.ts\<close>

record SupabaseClient =
  client_url :: jsstring
  client_key :: jsstring

text \<open>The state of the process: its environment and the singleton client.\<close>

record process =
  SUPABASE_URL :: "jsstring option"
  SUPABASE_ANON_KEY :: "jsstring option"
  supabaseInstance :: "SupabaseClient option"

text \<open>\<open>getSupabaseClient\<close> returns the client and the new state, or throws a
  \<open>SupabaseConfigError\<close> with the given message.\<close>

definition getSupabaseClient :: "process \<Rightarrow> jsstring + (SupabaseClient \<times> process)" where
  "getSupabaseClient p = (case supabaseInstance p of
      Some client \<Rightarrow> Inr (client, p)
    | None \<Rightarrow>
        (case or_else (SUPABASE_URL p) None of
           None \<Rightarrow> Inl (js (''Missing SUPABASE_URL environment variable. '' @
                          ''Please set it to your Supabase project URL.''))
         | Some supabaseUrl \<Rightarrow>
             (case or_else (SUPABASE_ANON_KEY p) None of
                None \<Rightarrow> Inl (js (''Missing SUPABASE_ANON_KEY environment variable. '' @
                               ''Please set it to your Supabase anon/public key.''))
              | Some supabaseAnonKey \<Rightarrow>
                  (let client = \<lparr>client_url = supabaseUrl, client_key = supabaseAnonKey\<rparr>
                   in Inr (client, p\<lparr>supabaseInstance := Some client\<rparr>)))))"

definition resetSupabaseClient :: "process \<Rightarrow> process" where
  "resetSupabaseClient p = p\<lparr>supabaseInstance := None\<rparr>"

section \<open>The storage collaborator\<close>

text \<open>
  Modelled from the spec: the persistence backend is not code of the repository.  It is a
  record store (the table \<open>memories\<close>) with insert-with-returned-row and filtered
  update-with-returned-row, each a single round trip that returns a row or a backend error
  descriptor.  An insert takes the identifier and the two timestamps from the database; an
  update sets exactly the columns named in its payload on the rows its filters select.
\<close>

type_synonym memories = "MemoryRecord list"

record backend =
  gen_random_uuid :: jsstring
  db_now :: jsstring
  fault :: "jsstring option"

record insert_values =
  ins_user_id :: jsstring
  ins_content :: jsstring
  ins_type :: MemoryType
  ins_tags :: "jsstring list"
  ins_importance :: real
  ins_session_id :: "jsstring option"

definition store_insert :: "backend \<Rightarrow> insert_values \<Rightarrow> memories \<Rightarrow> MemoryRecord \<times> memories" where
  "store_insert b v table =
     (let row = \<lparr>mem_id = gen_random_uuid b, mem_user_id = ins_user_id v,
                 mem_session_id = ins_session_id v, mem_type = ins_type v,
                 mem_content = ins_content v, mem_tags = Some (ins_tags v),
                 mem_importance = Some (ins_importance v), mem_created_at = db_now b,
                 mem_updated_at = db_now b\<rparr>
      in (row, table @ [row]))"

definition MemoryType_name :: "MemoryType \<Rightarrow> jsstring" where
  "MemoryType_name t = (case t of
      Preference \<Rightarrow> js ''preference'' | Profile \<Rightarrow> js ''profile'' | Task \<Rightarrow> js ''task''
    | Note \<Rightarrow> js ''note'' | Fact \<Rightarrow> js ''fact'')"

definition strings_of :: "json list \<Rightarrow> jsstring list" where
  "strings_of xs = concat (map (\<lambda>x. case x of JStr s \<Rightarrow> [s] | _ \<Rightarrow> []) xs)"

definition set_columns :: "(jsstring \<Rightarrow> json option) \<Rightarrow> MemoryRecord \<Rightarrow> MemoryRecord" where
  "set_columns payload row =
     row\<lparr>mem_content := (case payload (js ''content'') of
                            Some (JStr s) \<Rightarrow> s | _ \<Rightarrow> mem_content row),
         mem_type := (case payload (js ''type'') of
                         Some j \<Rightarrow> (case MemoryTypeSchema [] (Some j) of
                                      Inr t \<Rightarrow> t | Inl e \<Rightarrow> mem_type row)
                       | None \<Rightarrow> mem_type row),
         mem_tags := (case payload (js ''tags'') of
                         Some (JArr xs) \<Rightarrow> Some (strings_of xs)
                       | Some JNull \<Rightarrow> None
                       | _ \<Rightarrow> mem_tags row),
         mem_importance := (case payload (js ''importance'') of
                               Some (JNum n) \<Rightarrow> Some n
                             | Some JNull \<Rightarrow> None
                             | _ \<Rightarrow> mem_importance row),
         mem_updated_at := (case payload (js ''updated_at'') of
                               Some (JStr s) \<Rightarrow> s | _ \<Rightarrow> mem_updated_at row)\<rparr>"

definition selected :: "jsstring \<Rightarrow> jsstring \<Rightarrow> MemoryRecord \<Rightarrow> bool" where
  "selected userId ident row \<longleftrightarrow> mem_user_id row = userId \<and> mem_id row = ident"

definition store_update ::
  "(jsstring \<Rightarrow> json option) \<Rightarrow> jsstring \<Rightarrow> jsstring \<Rightarrow> memories \<Rightarrow> memories" where
  "store_update payload userId ident table =
     map (\<lambda>row. if selected userId ident row then set_columns payload row else row) table"

section \<open>tools/memory.ts\<close>

definition createErrorResult :: "platform \<Rightarrow> jsstring \<Rightarrow> McpToolResult" where
  "createErrorResult lib message =
     \<lparr>tr_content = [text_content (JSON_stringify lib (JObj [(js ''error'', JStr message)]))],
      tr_isError = Some True\<rparr>"

text \<open>\<open>xs.join(', ')\<close>.\<close>

fun join_comma :: "jsstring list \<Rightarrow> jsstring" where
  "join_comma [] = []"
| "join_comma [x] = x"
| "join_comma (x # y # ys) = x @ js '', '' @ join_comma (y # ys)"

definition validation_message :: "platform \<Rightarrow> zod_issue list \<Rightarrow> jsstring" where
  "validation_message lib issues = join_comma (map (issue_message lib) issues)"

text \<open>
  A memory tool returns its result with the new state of the process and of the table, or
  throws.  Of the failures inside its \<open>try\<close> block the model has the configuration error
  and the error reported by the backend.
\<close>

definition memorySave ::
  "platform \<Rightarrow> backend \<Rightarrow> process \<Rightarrow> memories \<Rightarrow> json \<Rightarrow>
   thrown + (McpToolResult \<times> process \<times> memories)" where
  "memorySave lib b p table args = (case MemorySaveInputSchema args of
      Inl issues \<Rightarrow> Inl (InvalidParamsError (validation_message lib issues))
    | Inr input \<Rightarrow>
        (case getSupabaseClient p of
           Inl message \<Rightarrow> Inr (createErrorResult lib message, p, table)
         | Inr (supabase, p') \<Rightarrow>
             (case fault b of
                Some message \<Rightarrow>
                  Inr (createErrorResult lib (js ''Failed to save memory: '' @ message), p', table)
              | None \<Rightarrow>
                  (case store_insert b
                          \<lparr>ins_user_id = save_userId input, ins_content = save_content input,
                           ins_type = save_type input,
                           ins_tags = (case save_tags input of Some tags \<Rightarrow> tags | None \<Rightarrow> []),
                           ins_importance = save_importance input,
                           ins_session_id = or_else (save_sessionId input) None\<rparr> table of
                     (row, table') \<Rightarrow>
                       Inr (\<lparr>tr_content = [text_content (JSON_stringify lib
                               (JObj [(js ''id'', JStr (mem_id row)), (js ''saved'', JBool True)]))],
                             tr_isError = None\<rparr>, p', table')))))"

text \<open>The object \<open>updateData\<close> that \<open>memoryUpdate\<close> builds and sends.\<close>

definition updateData :: "jsstring \<Rightarrow> MemoryUpdateInput \<Rightarrow> jsstring \<Rightarrow> json option" where
  "updateData now input =
     (let d0 = [js ''updated_at'' \<mapsto> JStr now];
          d1 = (case upd_content input of Some content \<Rightarrow> d0(js ''content'' \<mapsto> JStr content)
                | None \<Rightarrow> d0);
          d2 = (case upd_type input of Some t \<Rightarrow> d1(js ''type'' \<mapsto> JStr (MemoryType_name t))
                | None \<Rightarrow> d1);
          d3 = (case upd_tags input of Some tags \<Rightarrow> d2(js ''tags'' \<mapsto> JArr (map JStr tags))
                | None \<Rightarrow> d2);
          d4 = (case upd_importance input of Some importance \<Rightarrow>
                  d3(js ''importance'' \<mapsto> JNum importance) | None \<Rightarrow> d3)
      in d4)"

definition json_of_memory :: "MemoryOutput \<Rightarrow> json" where
  "json_of_memory m =
     JObj [(js ''id'', JStr (out_id m)), (js ''userId'', JStr (out_userId m)),
           (js ''sessionId'', (case out_sessionId m of Some s \<Rightarrow> JStr s | None \<Rightarrow> JNull)),
           (js ''type'', JStr (MemoryType_name (out_type m))),
           (js ''content'', JStr (out_content m)),
           (js ''tags'', (case out_tags m of Some tags \<Rightarrow> JArr (map JStr tags) | None \<Rightarrow> JNull)),
           (js ''importance'', (case out_importance m of Some n \<Rightarrow> JNum n | None \<Rightarrow> JNull)),
           (js ''createdAt'', JStr (out_createdAt m)),
           (js ''updatedAt'', JStr (out_updatedAt m))]"

definition memoryUpdate ::
  "platform \<Rightarrow> world \<Rightarrow> backend \<Rightarrow> process \<Rightarrow> memories \<Rightarrow> json \<Rightarrow>
   thrown + (McpToolResult \<times> process \<times> memories)" where
  "memoryUpdate lib w b p table args = (case MemoryUpdateInputSchema args of
      Inl issues \<Rightarrow> Inl (InvalidParamsError (validation_message lib issues))
    | Inr input \<Rightarrow>
        (case getSupabaseClient p of
           Inl message \<Rightarrow> Inr (createErrorResult lib message, p, table)
         | Inr (supabase, p') \<Rightarrow>
             (case fault b of
                Some message \<Rightarrow>
                  Inr (createErrorResult lib (js ''Failed to update memory: '' @ message), p', table)
              | None \<Rightarrow>
                  (let table' = store_update (updateData (Date_toISOString w) input)
                                  (upd_userId input) (upd_id input) table
                   in case filter (selected (upd_userId input) (upd_id input)) table' of
                        [] \<Rightarrow> Inr (createErrorResult lib
                                     (js ''Memory not found or not owned by user''), p', table')
                      | row # rows \<Rightarrow>
                          Inr (\<lparr>tr_content = [text_content (JSON_stringify lib
                                  (JObj [(js ''memory'', json_of_memory (toMemoryOutput row)),
                                         (js ''updated'', JBool True)]))],
                                tr_isError = None\<rparr>, p', table')))))"

section \<open>Notions of the specification\<close>

text \<open>A hexadecimal digit, in lower case as \<open>toString(16)\<close> writes it.\<close>

definition is_hex :: "code_unit \<Rightarrow> bool" where
  "is_hex c \<longleftrightarrow> (48 \<le> c \<and> c \<le> 57) \<or> (97 \<le> c \<and> c \<le> 102)"

text \<open>
  The pattern xxxxxxxx-xxxx-4xxx-yxxx-xxxxxxxxxxxx, character by character: an x stands for
  a hexadecimal digit, the y for one of 8, 9, a, b, any other character for itself.
\<close>

definition uuid_pattern_char :: "code_unit \<Rightarrow> code_unit \<Rightarrow> bool" where
  "uuid_pattern_char p c =
     (if p = 120 then is_hex c else if p = 121 then c \<in> {56, 57, 97, 98} else c = p)"

definition matches_uuid_pattern :: "jsstring \<Rightarrow> bool" where
  "matches_uuid_pattern u =
     list_all2 uuid_pattern_char (js ''xxxxxxxx-xxxx-4xxx-yxxx-xxxxxxxxxxxx'') u"

text \<open>
  A text cut into pieces by separators: \<open>weave\<close> puts the pieces and the separators
  between them back together, and \<open>separated\<close> says that no piece holds a separating
  character, that every separator is a non-empty run of separating characters, and that
  the separators are maximal (only the first and the last piece may be empty).
\<close>

fun weave :: "'a list list \<Rightarrow> 'a list list \<Rightarrow> 'a list" where
  "weave [] seps = []"
| "weave [p] seps = p"
| "weave (p # q # ps) [] = p"
| "weave (p # q # ps) (s # seps) = p @ s @ weave (q # ps) seps"

fun separated :: "('a \<Rightarrow> bool) \<Rightarrow> 'a list list \<Rightarrow> 'a list list \<Rightarrow> bool" where
  "separated sep [p] [] = list_all (\<lambda>c. \<not> sep c) p"
| "separated sep (p # q # ps) (s # seps) =
     (list_all (\<lambda>c. \<not> sep c) p \<and> s \<noteq> [] \<and> list_all sep s \<and> (q = [] \<longrightarrow> ps = []) \<and>
      separated sep (q # ps) seps)"
| "separated sep ps seps = False"

text \<open>A run that is empty or holds white space only.\<close>

definition blank :: "jsstring \<Rightarrow> bool" where
  "blank r \<longleftrightarrow> list_all is_space r"

section \<open>Sample inputs\<close>

definition quoted :: "string \<Rightarrow> jsstring" where
  "quoted s = 34 # js s @ [34]"

definition ping_text :: jsstring where
  "ping_text = js ''{'' @ quoted ''jsonrpc'' @ js '':'' @ quoted ''2.0'' @ js '','' @
     quoted ''id'' @ js '':1,'' @ quoted ''method'' @ js '':'' @ quoted ''ping'' @ js ''}''"

definition ping_json :: json where
  "ping_json = JObj [(js ''jsonrpc'', JStr (js ''2.0'')), (js ''id'', JNum 1),
                     (js ''method'', JStr (js ''ping''))]"

definition initialized_text :: jsstring where
  "initialized_text = js ''{'' @ quoted ''jsonrpc'' @ js '':'' @ quoted ''2.0'' @ js '','' @
     quoted ''method'' @ js '':'' @ quoted ''notifications/initialized'' @ js ''}''"

definition initialized_json :: json where
  "initialized_json = JObj [(js ''jsonrpc'', JStr (js ''2.0'')),
                            (js ''method'', JStr (js ''notifications/initialized''))]"

text \<open>
  Two requests whose ids are the literals \<open>2e308\<close> and \<open>9007199254740993\<close>, as \<open>JSON.parse\<close>
  reads them: a number literal is read as the double nearest to its value.
\<close>

definition huge_id_text :: jsstring where
  "huge_id_text = js ''{'' @ quoted ''jsonrpc'' @ js '':'' @ quoted ''2.0'' @ js '','' @
     quoted ''id'' @ js '':2e308,'' @ quoted ''method'' @ js '':'' @ quoted ''ping'' @ js ''}''"

definition huge_id_json :: json where
  "huge_id_json = JObj [(js ''jsonrpc'', JStr (js ''2.0'')),
                        (js ''id'', JNumber (to_double (2 * 10 ^ 308))),
                        (js ''method'', JStr (js ''ping''))]"

definition rounded_id_text :: jsstring where
  "rounded_id_text = js ''{'' @ quoted ''jsonrpc'' @ js '':'' @ quoted ''2.0'' @ js '','' @
     quoted ''id'' @ js '':9007199254740993,'' @ quoted ''method'' @ js '':'' @ quoted ''ping'' @
     js ''}''"

definition rounded_id_json :: json where
  "rounded_id_json = JObj [(js ''jsonrpc'', JStr (js ''2.0'')),
                           (js ''id'', JNumber (to_double 9007199254740993)),
                           (js ''method'', JStr (js ''ping''))]"

text \<open>A platform whose \<open>JSON.parse\<close> is known on the five texts above.\<close>

definition sample_platform :: platform where
  "sample_platform =
     \<lparr>JSON_parse = map_of [(js ''{}'', JObj []), (ping_text, ping_json),
                           (initialized_text, initialized_json),
                           (huge_id_text, huge_id_json), (rounded_id_text, rounded_id_json)],
      JSON_text = (\<lambda>j. js ''[json]''),
      ZodError_message = (\<lambda>issues. js ''[issues]''),
      zod_errorMap = (\<lambda>i. js ''Invalid input'')\<rparr>"

definition sample_world :: world where
  "sample_world =
     \<lparr>Date_toISOString = js ''2026-01-01T00:00:00.000Z'', Date_now = 1767225600000,
      Math_random = (\<lambda>k. 1 / 2)\<rparr>"

definition post :: "jsstring option \<Rightarrow> HandlerEvent" where
  "post b = \<lparr>ev_httpMethod = js ''POST'', ev_headers = (\<lambda>h. None), ev_body = b\<rparr>"

definition sample_process :: process where
  "sample_process =
     \<lparr>SUPABASE_URL = Some (js ''https://example.supabase.co''),
      SUPABASE_ANON_KEY = Some (js ''anon-key''), supabaseInstance = None\<rparr>"

definition sample_backend :: backend where
  "sample_backend =
     \<lparr>gen_random_uuid = js ''m2'', db_now = js ''2026-01-01T00:00:00.000Z'', fault = None\<rparr>"

definition sample_memory :: MemoryRecord where
  "sample_memory =
     \<lparr>mem_id = js ''m1'', mem_user_id = js ''user123'', mem_session_id = None,
      mem_type = Preference, mem_content = js ''Prefers dark mode'',
      mem_tags = Some [js ''ui''], mem_importance = Some 5,
      mem_created_at = js ''2025-06-01T00:00:00.000Z'',
      mem_updated_at = js ''2025-06-01T00:00:00.000Z''\<rparr>"

definition sample_update :: json where
  "sample_update = JObj [(js ''userId'', JStr (js ''user123'')), (js ''id'', JStr (js ''m1'')),
                         (js ''content'', JStr (js ''Prefers light mode''))]"

section \<open>Rounding to a double\<close>

lemma round_half_even_nearest: "\<bar>of_int (round_half_even x) - x\<bar> \<le> 1 / 2"
  unfolding round_half_even_def by (simp add: abs_le_iff)

lemma quantum_positive: "0 < quantum x"
  by (simp add: quantum_def)

text \<open>
  Below the overflow threshold the rounding gives a finite number, at most half a quantum
  away; from the threshold on it gives an infinity, which is written as \<open>null\<close>.
\<close>

lemma to_double_nearest:
  assumes "\<bar>x\<bar> < overflow_threshold"
  shows "\<exists>q. to_double x = Finite q \<and> \<bar>q - x\<bar> \<le> quantum x / 2"
proof -
  define d where "d = of_int (round_half_even (\<bar>x\<bar> / quantum x)) * quantum x"
  have "\<bar>of_int (round_half_even (\<bar>x\<bar> / quantum x)) - \<bar>x\<bar> / quantum x\<bar> \<le> 1 / 2"
    by (rule round_half_even_nearest)
  then have "\<bar>of_int (round_half_even (\<bar>x\<bar> / quantum x)) - \<bar>x\<bar> / quantum x\<bar> * quantum x
      \<le> 1 / 2 * quantum x"
    using quantum_positive [of x] by (intro mult_right_mono) simp_all
  moreover have "\<bar>of_int (round_half_even (\<bar>x\<bar> / quantum x)) - \<bar>x\<bar> / quantum x\<bar> * quantum x =
      \<bar>(of_int (round_half_even (\<bar>x\<bar> / quantum x)) - \<bar>x\<bar> / quantum x) * quantum x\<bar>"
    using quantum_positive [of x] by (intro abs_mult_pos) simp
  moreover have "(of_int (round_half_even (\<bar>x\<bar> / quantum x)) - \<bar>x\<bar> / quantum x) * quantum x =
      d - \<bar>x\<bar>"
    unfolding d_def using quantum_positive [of x] by (simp add: left_diff_distrib)
  ultimately have "\<bar>d - \<bar>x\<bar>\<bar> \<le> quantum x / 2"
    by simp
  then have near: "d - \<bar>x\<bar> \<le> quantum x / 2" "\<bar>x\<bar> - d \<le> quantum x / 2"
    by linarith+
  have "\<bar>sgn x * d - x\<bar> \<le> quantum x / 2"
  proof (cases "x < 0")
    case True
    then have "sgn x * d = - d" by simp
    then show ?thesis using near True by (intro abs_leI) linarith+
  next
    case False
    show ?thesis
    proof (cases "x = 0")
      case True
      then show ?thesis using quantum_positive [of x] by simp
    next
      case False
      with \<open>\<not> x < 0\<close> have "sgn x * d = d" by simp
      then show ?thesis using near \<open>\<not> x < 0\<close> by (intro abs_leI) linarith+
    qed
  qed
  then show ?thesis using assms by (simp add: to_double_def d_def)
qed

lemma to_double_overflow:
  assumes "overflow_threshold \<le> \<bar>x\<bar>"
  shows "written (JNumber (to_double x)) = JNull"
  using assms by (simp add: to_double_def)

lemma floor_log2_binade:
  assumes "2 powr of_int e \<le> \<bar>x\<bar>" and "\<bar>x\<bar> < 2 powr of_int (e + 1)"
  shows "\<lfloor>log 2 \<bar>x\<bar>\<rfloor> = e"
proof -
  have positive: "0 < \<bar>x\<bar>"
    using assms(1) powr_gt_zero [of 2 "of_int e"] by linarith
  have "of_int e \<le> log 2 \<bar>x\<bar>"
    using assms(1) positive by (simp add: le_log_iff)
  moreover have "log 2 \<bar>x\<bar> < of_int (e + 1)"
    using assms(2) positive by (simp add: log_less_iff)
  ultimately show ?thesis by (simp add: floor_eq_iff)
qed

text \<open>The quotient of 1 by 4 is a double; that of \<open>2\<^sup>1\<^sup>0\<^sup>2\<^sup>3\<close> by 1/2 is beyond the doubles.\<close>

lemma to_double_quarter: "to_double (1 / 4) = Finite (1 / 4)"
proof -
  have "\<lfloor>log 2 \<bar>1 / 4 :: real\<bar>\<rfloor> = - 2"
    by (rule floor_log2_binade) (simp_all add: powr_minus)
  then have binade: "quantum (1 / 4) = 1 / 2 ^ 54"
    by (simp add: quantum_def powr_minus_divide)
  show ?thesis
    unfolding to_double_def binade by (simp add: overflow_threshold_def round_half_even_def)
qed

lemma to_double_beyond: "to_double (2 ^ 1023 / (1 / 2)) = PosInfinity"
  by (simp add: to_double_def overflow_threshold_def)

text \<open>
  The number literals that \<open>JSON.parse\<close> reads: \<open>2e308\<close> is beyond the doubles and is read
  as \<open>Infinity\<close>; \<open>9007199254740993\<close>, which is \<open>2\<^sup>5\<^sup>3 + 1\<close>, lies between two doubles and
  is read as the even one below it.
\<close>

lemma to_double_2e308: "to_double (2 * 10 ^ 308) = PosInfinity"
  by (simp add: to_double_def overflow_threshold_def)

lemma to_double_above_2_53: "to_double 9007199254740993 = Finite 9007199254740992"
proof -
  have "\<lfloor>log 2 \<bar>9007199254740993 :: real\<bar>\<rfloor> = 53"
    by (rule floor_log2_binade) simp_all
  then have "quantum 9007199254740993 = 2"
    by (simp add: quantum_def)
  then show ?thesis
    by (simp add: to_double_def overflow_threshold_def round_half_even_def)
qed

section \<open>The dispatcher\<close>

lemma js_OPTIONS_neq_POST: "js ''OPTIONS'' \<noteq> js ''POST''"
  by (simp add: js_def)

lemma written_response_fields:
  "res_id (written_response r) = written_id (res_id r)"
  "(res_result (written_response r) = None) = (res_result r = None)"
  "res_error (written_response r) = res_error r"
  by (simp_all add: written_response_def)

lemma written_createErrorResponse:
  "written_response (createErrorResponse IdNull c m d) = createErrorResponse IdNull c m d"
  by (simp add: written_response_def createErrorResponse_def written_id_def finite_id_def)

lemma written_ping:
  "written_response (createResponse i EmptyObject) = createResponse (written_id i) EmptyObject"
  by (simp add: written_response_def createResponse_def written_result_def)

lemma parse_huge_id:
  "JSON_parse sample_platform (body_or_default (ev_body (post (Some huge_id_text)))) =
     Some huge_id_json"
  by (simp add: sample_platform_def post_def body_or_default_def huge_id_text_def
      initialized_text_def ping_text_def quoted_def js_def)

lemma schema_huge_id:
  "JsonRpcRequestSchema huge_id_json =
     Inr \<lparr>req_jsonrpc = js ''2.0'', req_id = Some (IdNum PosInfinity), req_method = js ''ping'',
          req_params = None\<rparr>"
  unfolding huge_id_json_def to_double_2e308
  by (simp add: JsonRpcRequestSchema_def property_def z_literal_2_0_def z_optional_def
      z_id_def z_string_def js_def)

lemma createResponse_fields:
  "res_id (createResponse i r) = i" "res_result (createResponse i r) = Some r"
  "res_error (createResponse i r) = None"
  by (simp_all add: createResponse_def)

lemma createErrorResponse_fields:
  "res_id (createErrorResponse i c m d) = i" "res_result (createErrorResponse i c m d) = None"
  "res_error (createErrorResponse i c m d) = Some \<lparr>err_code = c, err_message = m, err_data = d\<rparr>"
  by (simp_all add: createErrorResponse_def)

lemma handleToolsCall_using_fields:
  "res_id (handleToolsCall_using router i params) = i \<and>
   (res_result (handleToolsCall_using router i params) = None) \<noteq>
   (res_error (handleToolsCall_using router i params) = None)"
  unfolding handleToolsCall_using_def Let_def
  by (simp add: createResponse_fields createErrorResponse_fields
      split: option.split json.split sum.split thrown.split)

lemma post_method: "ev_httpMethod (post b) = js ''POST''"
  by (simp add: post_def)

lemma post_headers: "ev_headers (post b) h = None"
  by (simp add: post_def)

lemma parse_ping:
  "JSON_parse sample_platform (body_or_default (ev_body (post (Some ping_text)))) = Some ping_json"
  by (simp add: sample_platform_def post_def body_or_default_def ping_text_def quoted_def js_def)

lemma parse_initialized:
  "JSON_parse sample_platform (body_or_default (ev_body (post (Some initialized_text)))) =
     Some initialized_json"
  by (simp add: sample_platform_def post_def body_or_default_def initialized_text_def
      ping_text_def quoted_def js_def)

lemma schema_ping:
  "JsonRpcRequestSchema ping_json =
     Inr \<lparr>req_jsonrpc = js ''2.0'', req_id = Some (IdNumber 1), req_method = js ''ping'',
          req_params = None\<rparr>"
  by (simp add: JsonRpcRequestSchema_def ping_json_def property_def z_literal_2_0_def
      z_optional_def z_id_def z_string_def js_def)

lemma schema_initialized:
  "JsonRpcRequestSchema initialized_json =
     Inr \<lparr>req_jsonrpc = js ''2.0'', req_id = None,
          req_method = js ''notifications/initialized'', req_params = None\<rparr>"
  by (simp add: JsonRpcRequestSchema_def initialized_json_def property_def z_literal_2_0_def
      z_optional_def z_id_def z_string_def js_def)

lemma schema_empty_object:
  "JsonRpcRequestSchema (JObj []) =
     Inl [ZodIssue invalid_literal [Key (js ''jsonrpc'')] None,
          ZodIssue invalid_type [Key (js ''method'')] None]"
  by (simp add: JsonRpcRequestSchema_def property_def z_literal_2_0_def z_optional_def
      z_string_def)

text \<open>
  C2.  A structurally valid request whose id is absent or null is a notification: whatever
  its method and parameters, the handler answers 204 with an empty body and the request is
  not routed.
\<close>

theorem notification_gets_no_body:
  assumes "ev_httpMethod event = js ''POST''"
    and "JSON_parse lib (body_or_default (ev_body event)) = Some parsed"
    and "JsonRpcRequestSchema parsed = Inr request"
    and "req_id request = None \<or> req_id request = Some IdNull"
  shows "handler lib w event =
           \<lparr>statusCode = 204,
            headers = getCorsHeaders (or_else (ev_headers event (js ''origin''))
                                              (ev_headers event (js ''Origin''))),
            body = EmptyBody\<rparr>"
  using assms js_OPTIONS_neq_POST by (auto simp add: handler_def Let_def)

theorem notification_gets_no_body_witness:
  "ev_httpMethod (post (Some initialized_text)) = js ''POST'' \<and>
   JSON_parse sample_platform (body_or_default (ev_body (post (Some initialized_text)))) =
     Some initialized_json \<and>
   req_id \<lparr>req_jsonrpc = js ''2.0'', req_id = None,
           req_method = js ''notifications/initialized'', req_params = None\<rparr> = None \<and>
   handler sample_platform sample_world (post (Some initialized_text)) =
     \<lparr>statusCode = 204, headers = getCorsHeaders None, body = EmptyBody\<rparr>"
proof -
  have absent: "req_id \<lparr>req_jsonrpc = js ''2.0'', req_id = None,
      req_method = js ''notifications/initialized'', req_params = None\<rparr> = None \<or>
    req_id \<lparr>req_jsonrpc = js ''2.0'', req_id = None,
      req_method = js ''notifications/initialized'', req_params = None\<rparr> = Some IdNull"
    by simp
  from notification_gets_no_body [OF post_method parse_initialized schema_initialized absent]
  have "handler sample_platform sample_world (post (Some initialized_text)) =
     \<lparr>statusCode = 204, headers = getCorsHeaders None, body = EmptyBody\<rparr>"
    by (simp add: post_def or_else_def)
  then show ?thesis using post_method parse_initialized by simp
qed

text \<open>
  C3.  A structurally valid request with a string or number id is answered, whichever
  branch handles its method, by an envelope with exactly one of \<open>result\<close> and \<open>error\<close>.
  The envelope carries the id of the request as \<open>JSON.parse\<close> read it, when that is a
  string or a finite number, and \<open>null\<close> when it is an infinity: the id that a number
  literal beyond the doubles was read as.
\<close>

theorem response_carries_written_id_with_result_xor_error:
  assumes "ev_httpMethod event = js ''POST''"
    and "JSON_parse lib (body_or_default (ev_body event)) = Some parsed"
    and "JsonRpcRequestSchema parsed = Inr request"
    and "req_id request = Some i" and "i \<noteq> IdNull"
  shows "\<exists>response.
           handler lib w event =
             \<lparr>statusCode = 200,
              headers = getCorsHeaders (or_else (ev_headers event (js ''origin''))
                                                (ev_headers event (js ''Origin''))),
              body = JsonBody response\<rparr> \<and>
           res_id response = (if finite_id i then i else IdNull) \<and>
           (res_result response = None) \<noteq> (res_error response = None)"
proof -
  define routed where "routed =
    (if req_method request = js ''initialize'' then handleInitialize i
     else if req_method request = js ''tools/list'' then handleToolsList i
     else if req_method request = js ''tools/call''
       then handleToolsCall lib w i (req_params request)
     else if req_method request = js ''ping'' then handlePing i
     else createErrorResponse i METHOD_NOT_FOUND
            (js ''Method not found: '' @ req_method request) None)"
  have "handler lib w event =
          \<lparr>statusCode = 200,
           headers = getCorsHeaders (or_else (ev_headers event (js ''origin''))
                                             (ev_headers event (js ''Origin''))),
           body = JsonBody (written_response routed)\<rparr>"
    unfolding routed_def using assms js_OPTIONS_neq_POST
    by (cases i) (simp_all add: handler_def Let_def JSON_stringify_response_def)
  moreover have "res_id routed = i \<and> (res_result routed = None) \<noteq> (res_error routed = None)"
    unfolding routed_def
    using handleToolsCall_using_fields
      [of "\<lambda>name args. Inr (executeTool lib w name args)" i "req_params request"]
    by (simp add: handleInitialize_def handleToolsList_def handlePing_def handleToolsCall_def
        createResponse_fields createErrorResponse_fields)
  then have "res_id (written_response routed) = (if finite_id i then i else IdNull) \<and>
      (res_result (written_response routed) = None) \<noteq>
      (res_error (written_response routed) = None)"
    by (simp add: written_response_fields written_id_def)
  ultimately show ?thesis by blast
qed

theorem response_carries_written_id_with_result_xor_error_witness:
  "ev_httpMethod (post (Some ping_text)) = js ''POST'' \<and>
   JSON_parse sample_platform (body_or_default (ev_body (post (Some ping_text)))) =
     Some ping_json \<and>
   IdNumber 1 \<noteq> IdNull \<and>
   (\<exists>response.
      handler sample_platform sample_world (post (Some ping_text)) =
        \<lparr>statusCode = 200, headers = getCorsHeaders None, body = JsonBody response\<rparr> \<and>
      res_id response = IdNumber 1 \<and>
      (res_result response = None) \<noteq> (res_error response = None))"
proof -
  have present: "req_id \<lparr>req_jsonrpc = js ''2.0'', req_id = Some (IdNumber 1),
      req_method = js ''ping'', req_params = None\<rparr> = Some (IdNumber 1)"
    by simp
  have number: "IdNumber 1 \<noteq> IdNull" by simp
  from response_carries_written_id_with_result_xor_error
    [OF post_method parse_ping schema_ping present number, of sample_world]
  have "\<exists>response.
      handler sample_platform sample_world (post (Some ping_text)) =
        \<lparr>statusCode = 200, headers = getCorsHeaders None, body = JsonBody response\<rparr> \<and>
      res_id response = IdNumber 1 \<and>
      (res_result response = None) \<noteq> (res_error response = None)"
    by (simp add: post_def or_else_def finite_id_def)
  then show ?thesis using post_method parse_ping number by blast
qed

text \<open>
  The request \<open>{"jsonrpc":"2.0","id":2e308,"method":"ping"}\<close>: its id is read as
  \<open>Infinity\<close>, the schema accepts it, and the answer carries the id \<open>null\<close>.
\<close>

theorem id_beyond_the_doubles_is_answered_with_null:
  "JSON_parse sample_platform (body_or_default (ev_body (post (Some huge_id_text)))) =
     Some huge_id_json \<and>
   JsonRpcRequestSchema huge_id_json =
     Inr \<lparr>req_jsonrpc = js ''2.0'', req_id = Some (IdNum PosInfinity), req_method = js ''ping'',
          req_params = None\<rparr> \<and>
   handler sample_platform sample_world (post (Some huge_id_text)) =
     \<lparr>statusCode = 200, headers = getCorsHeaders None,
      body = JsonBody (createResponse IdNull EmptyObject)\<rparr> \<and>
   IdNum PosInfinity \<noteq> IdNull"
proof -
  have "handler sample_platform sample_world (post (Some huge_id_text)) =
     \<lparr>statusCode = 200, headers = getCorsHeaders None,
      body = JsonBody (createResponse IdNull EmptyObject)\<rparr>"
    using js_OPTIONS_neq_POST
    by (simp add: handler_def Let_def post_method post_headers parse_huge_id schema_huge_id
        JSON_stringify_response_def handlePing_def written_ping written_id_def finite_id_def
        or_else_def js_def)
  then show ?thesis using parse_huge_id schema_huge_id by simp
qed

text \<open>
  The request \<open>{"jsonrpc":"2.0","id":9007199254740993,"method":"ping"}\<close>: its id is read as
  the double 9007199254740992, and that is the id of the answer.
\<close>

lemma parse_rounded_id:
  "JSON_parse sample_platform (body_or_default (ev_body (post (Some rounded_id_text)))) =
     Some rounded_id_json"
  by (simp add: sample_platform_def post_def body_or_default_def rounded_id_text_def
      huge_id_text_def initialized_text_def ping_text_def quoted_def js_def)

lemma schema_rounded_id:
  "JsonRpcRequestSchema rounded_id_json =
     Inr \<lparr>req_jsonrpc = js ''2.0'', req_id = Some (IdNumber 9007199254740992),
          req_method = js ''ping'', req_params = None\<rparr>"
  unfolding rounded_id_json_def to_double_above_2_53
  by (simp add: JsonRpcRequestSchema_def property_def z_literal_2_0_def z_optional_def
      z_id_def z_string_def js_def)

lemma id_between_doubles_is_answered_rounded:
  "handler sample_platform sample_world (post (Some rounded_id_text)) =
     \<lparr>statusCode = 200, headers = getCorsHeaders None,
      body = JsonBody (createResponse (IdNumber 9007199254740992) EmptyObject)\<rparr>"
  using js_OPTIONS_neq_POST
  by (simp add: handler_def Let_def post_method post_headers parse_rounded_id schema_rounded_id
      JSON_stringify_response_def handlePing_def written_ping written_id_def finite_id_def
      or_else_def js_def)

lemma unknown_name_response:
  assumes "property kvs ''name'' = Some (JStr name)"
    and "name \<notin> tool_name ` set toolDefinitions"
  shows "handleToolsCall_using router i (Some kvs) =
           createErrorResponse i INVALID_PARAMS (js ''Unknown tool: '' @ name) None"
proof -
  have "\<not> (\<exists>t \<in> set toolDefinitions. tool_name t = name)"
    using assms(2) by auto
  then show ?thesis
    using assms(1) unfolding handleToolsCall_using_def Let_def by simp
qed

text \<open>
  C4.  A \<open>tools/call\<close> whose name is a string that no tool definition carries is answered
  by the error -32602, whatever the tool router would do with the name: the router is not
  consulted.
\<close>

theorem unknown_tool_is_invalid_params:
  assumes "property kvs ''name'' = Some (JStr name)"
    and "name \<notin> tool_name ` set toolDefinitions"
  shows "handleToolsCall_using router i (Some kvs) =
           createErrorResponse i INVALID_PARAMS (js ''Unknown tool: '' @ name) None \<and>
         handleToolsCall lib w i (Some kvs) =
           createErrorResponse i INVALID_PARAMS (js ''Unknown tool: '' @ name) None \<and>
         INVALID_PARAMS = - 32602"
  using unknown_name_response [OF assms]
  by (simp add: handleToolsCall_def INVALID_PARAMS_def)

theorem unknown_tool_is_invalid_params_witness:
  "property [(js ''name'', JStr (js ''nonexistent_tool''))] ''name'' =
     Some (JStr (js ''nonexistent_tool'')) \<and>
   js ''nonexistent_tool'' \<notin> tool_name ` set toolDefinitions \<and>
   handleToolsCall sample_platform sample_world (IdNumber 1)
       (Some [(js ''name'', JStr (js ''nonexistent_tool''))]) =
     createErrorResponse (IdNumber 1) (- 32602) (js ''Unknown tool: nonexistent_tool'') None"
proof -
  have name: "property [(js ''name'', JStr (js ''nonexistent_tool''))] ''name'' =
      Some (JStr (js ''nonexistent_tool''))"
    by (simp add: property_def)
  have unknown: "js ''nonexistent_tool'' \<notin> tool_name ` set toolDefinitions"
    by (simp add: toolDefinitions_def js_def)
  from unknown_tool_is_invalid_params [OF name unknown, of _ "IdNumber 1" sample_platform sample_world]
  have "handleToolsCall sample_platform sample_world (IdNumber 1)
       (Some [(js ''name'', JStr (js ''nonexistent_tool''))]) =
     createErrorResponse (IdNumber 1) (- 32602) (js ''Unknown tool: nonexistent_tool'') None"
    by (simp add: js_def)
  then show ?thesis using name unknown by simp
qed

text \<open>
  C10.  A POST whose body is absent or the empty string is parsed as the text \<open>{}\<close>, which
  \<open>JSON.parse\<close> reads as the empty object: the answer is the structural-validation error
  -32600 (the literal \<open>jsonrpc\<close> and the \<open>method\<close> are missing), not the parse error
  -32700.
\<close>

theorem empty_body_is_invalid_request:
  assumes "JSON_parse lib (js ''{}'') = Some (JObj [])"
    and "ev_httpMethod event = js ''POST''"
    and "ev_body event = None \<or> ev_body event = Some []"
  shows "body_or_default (ev_body event) = js ''{}'' \<and>
         handler lib w event =
           \<lparr>statusCode = 400,
            headers = getCorsHeaders (or_else (ev_headers event (js ''origin''))
                                              (ev_headers event (js ''Origin''))),
            body = JsonBody (createErrorResponse IdNull INVALID_REQUEST
                     (js ''Invalid JSON-RPC request'')
                     (Some (IssuesData [ZodIssue invalid_literal [Key (js ''jsonrpc'')] None,
                                        ZodIssue invalid_type [Key (js ''method'')] None])))\<rparr> \<and>
         INVALID_REQUEST = - 32600 \<and> INVALID_REQUEST \<noteq> PARSE_ERROR"
proof -
  have substituted: "body_or_default (ev_body event) = js ''{}''"
    using assms(3) by (auto simp add: body_or_default_def)
  show ?thesis
    using assms(1,2) js_OPTIONS_neq_POST
    by (simp add: substituted handler_def Let_def schema_empty_object INVALID_REQUEST_def
        PARSE_ERROR_def JSON_stringify_response_def written_createErrorResponse)
qed

theorem empty_body_is_invalid_request_witness:
  "JSON_parse sample_platform (js ''{}'') = Some (JObj []) \<and>
   ev_httpMethod (post None) = js ''POST'' \<and>
   ev_body (post None) = None \<and>
   handler sample_platform sample_world (post None) =
     \<lparr>statusCode = 400, headers = getCorsHeaders None,
      body = JsonBody (createErrorResponse IdNull (- 32600) (js ''Invalid JSON-RPC request'')
               (Some (IssuesData [ZodIssue invalid_literal [Key (js ''jsonrpc'')] None,
                                  ZodIssue invalid_type [Key (js ''method'')] None])))\<rparr>"
proof -
  have parse: "JSON_parse sample_platform (js ''{}'') = Some (JObj [])"
    by (simp add: sample_platform_def)
  have absent: "ev_body (post None) = None \<or> ev_body (post None) = Some []"
    by (simp add: post_def)
  from empty_body_is_invalid_request [OF parse post_method absent, of sample_world]
  have "handler sample_platform sample_world (post None) =
     \<lparr>statusCode = 400, headers = getCorsHeaders None,
      body = JsonBody (createErrorResponse IdNull (- 32600) (js ''Invalid JSON-RPC request'')
               (Some (IssuesData [ZodIssue invalid_literal [Key (js ''jsonrpc'')] None,
                                  ZodIssue invalid_type [Key (js ''method'')] None])))\<rparr>"
    by (simp add: post_def or_else_def)
  then show ?thesis using parse post_method by (simp add: post_def)
qed

section \<open>The utility tools\<close>

lemma calculate_is_registered: "\<exists>t \<in> set toolDefinitions. tool_name t = js ''calculate''"
  by (simp add: toolDefinitions_def)

text \<open>
  C5.  \<open>calculate\<close> with the operation divide, for numbers a and b as the schema accepts
  them (any but NaN): when b is zero the tool result is the in-band error
  'Error: Division by zero', and otherwise its text is the serialised object of the
  operation, a, b and the quotient of the doubles a and b; either way the dispatcher wraps
  the tool result in a success envelope whose \<open>error\<close> is unset.  The quotient of finite a
  and b is the real quotient rounded to a double: a finite number at most half a quantum
  away from it when its magnitude is below the overflow threshold, and otherwise an
  infinity, which the text of the object has as \<open>null\<close>.
\<close>

theorem divide_is_in_band_with_the_quotient_of_doubles:
  assumes "property kvs ''operation'' = Some (JStr (js ''divide''))"
    and "property kvs ''a'' = Some (JNumber a)" and "property kvs ''b'' = Some (JNumber b)"
    and "a \<noteq> NaN" and "b \<noteq> NaN"
    and "property params ''name'' = Some (JStr (js ''calculate''))"
    and "property params ''arguments'' = Some (JObj kvs)"
  shows "calculate lib (JObj kvs) =
           (if b = Finite 0
            then \<lparr>tr_content = [text_content (js ''Error: Division by zero'')],
                  tr_isError = Some True\<rparr>
            else \<lparr>tr_content = [text_content (JSON_stringify lib
                    (JObj [(js ''operation'', JStr (js ''divide'')), (js ''a'', JNumber a),
                           (js ''b'', JNumber b),
                           (js ''result'', JNumber (number_divide a b))]))],
                  tr_isError = None\<rparr>) \<and>
         handleToolsCall lib w i (Some params) =
           \<lparr>res_jsonrpc = js ''2.0'', res_id = i,
            res_result = Some (ToolCallResult (calculate lib (JObj kvs))), res_error = None\<rparr> \<and>
         (\<forall>x y. a = Finite x \<and> b = Finite y \<and> y \<noteq> 0 \<longrightarrow>
            number_divide a b = to_double (x / y) \<and>
            (if \<bar>x / y\<bar> < overflow_threshold
             then \<exists>q. to_double (x / y) = Finite q \<and> \<bar>q - x / y\<bar> \<le> quantum (x / y) / 2
             else written (JNumber (to_double (x / y))) = JNull))"
proof -
  have parsed: "CalculateInputSchema (JObj kvs) = Inr (Op_divide, a, b)"
    using assms(1-5) by (simp add: CalculateInputSchema_def z_enum_def z_number_def js_def)
  have quotient: "calculate lib (JObj kvs) =
      (if b = Finite 0
       then \<lparr>tr_content = [text_content (js ''Error: Division by zero'')],
             tr_isError = Some True\<rparr>
       else \<lparr>tr_content = [text_content (JSON_stringify lib
               (JObj [(js ''operation'', JStr (js ''divide'')), (js ''a'', JNumber a),
                      (js ''b'', JNumber b), (js ''result'', JNumber (number_divide a b))]))],
             tr_isError = None\<rparr>)"
    by (simp add: calculate_def parsed operation_name_def)
  have "handleToolsCall lib w i (Some params) =
      createResponse i (ToolCallResult (executeTool lib w (js ''calculate'') (JObj kvs)))"
    using assms(6,7) calculate_is_registered
    unfolding handleToolsCall_def handleToolsCall_using_def Let_def by simp
  moreover have "executeTool lib w (js ''calculate'') (JObj kvs) = calculate lib (JObj kvs)"
    by (simp add: executeTool_def js_def)
  ultimately have envelope: "handleToolsCall lib w i (Some params) =
      \<lparr>res_jsonrpc = js ''2.0'', res_id = i,
       res_result = Some (ToolCallResult (calculate lib (JObj kvs))), res_error = None\<rparr>"
    by (simp add: createResponse_def)
  have rounded: "\<forall>x y. a = Finite x \<and> b = Finite y \<and> y \<noteq> 0 \<longrightarrow>
      number_divide a b = to_double (x / y) \<and>
      (if \<bar>x / y\<bar> < overflow_threshold
       then \<exists>q. to_double (x / y) = Finite q \<and> \<bar>q - x / y\<bar> \<le> quantum (x / y) / 2
       else written (JNumber (to_double (x / y))) = JNull)"
    using to_double_nearest to_double_overflow by (simp add: not_less)
  from quotient envelope rounded show ?thesis by blast
qed

theorem divide_is_in_band_with_the_quotient_of_doubles_witness:
  "property [(js ''operation'', JStr (js ''divide'')), (js ''a'', JNum 1), (js ''b'', JNum 0)]
     ''b'' = Some (JNum 0) \<and>
   calculate sample_platform
     (JObj [(js ''operation'', JStr (js ''divide'')), (js ''a'', JNum 1), (js ''b'', JNum 0)]) =
     \<lparr>tr_content = [text_content (js ''Error: Division by zero'')], tr_isError = Some True\<rparr> \<and>
   res_error (handleToolsCall sample_platform sample_world (IdNumber 3)
     (Some [(js ''name'', JStr (js ''calculate'')),
            (js ''arguments'', JObj [(js ''operation'', JStr (js ''divide'')),
                                     (js ''a'', JNum 1), (js ''b'', JNum 0)])])) = None \<and>
   calculate sample_platform
     (JObj [(js ''operation'', JStr (js ''divide'')), (js ''a'', JNum 1), (js ''b'', JNum 4)]) =
     \<lparr>tr_content = [text_content (JSON_stringify sample_platform
        (JObj [(js ''operation'', JStr (js ''divide'')), (js ''a'', JNum 1), (js ''b'', JNum 4),
               (js ''result'', JNum (1 / 4))]))],
      tr_isError = None\<rparr>"
proof -
  let ?zero = "[(js ''operation'', JStr (js ''divide'')), (js ''a'', JNum 1), (js ''b'', JNum 0)]"
  let ?four = "[(js ''operation'', JStr (js ''divide'')), (js ''a'', JNum 1), (js ''b'', JNum 4)]"
  let ?by_zero = "[(js ''name'', JStr (js ''calculate'')), (js ''arguments'', JObj ?zero)]"
  let ?by_four = "[(js ''name'', JStr (js ''calculate'')), (js ''arguments'', JObj ?four)]"
  have zero: "property ?zero ''operation'' = Some (JStr (js ''divide''))"
    "property ?zero ''a'' = Some (JNum 1)" "property ?zero ''b'' = Some (JNum 0)"
    "Finite 1 \<noteq> NaN" "Finite 0 \<noteq> NaN"
    "property ?by_zero ''name'' = Some (JStr (js ''calculate''))"
    "property ?by_zero ''arguments'' = Some (JObj ?zero)"
    by (simp_all add: property_def js_def)
  have four: "property ?four ''operation'' = Some (JStr (js ''divide''))"
    "property ?four ''a'' = Some (JNum 1)" "property ?four ''b'' = Some (JNum 4)"
    "Finite 1 \<noteq> NaN" "Finite 4 \<noteq> NaN"
    "property ?by_four ''name'' = Some (JStr (js ''calculate''))"
    "property ?by_four ''arguments'' = Some (JObj ?four)"
    by (simp_all add: property_def js_def)
  from divide_is_in_band_with_the_quotient_of_doubles
    [OF zero, of sample_platform sample_world "IdNumber 3"]
  have by_zero: "calculate sample_platform (JObj ?zero) =
      \<lparr>tr_content = [text_content (js ''Error: Division by zero'')], tr_isError = Some True\<rparr>"
    "res_error (handleToolsCall sample_platform sample_world (IdNumber 3) (Some ?by_zero)) = None"
    by simp_all
  from divide_is_in_band_with_the_quotient_of_doubles
    [OF four, of sample_platform sample_world "IdNumber 3"]
  have "calculate sample_platform (JObj ?four) =
     \<lparr>tr_content = [text_content (JSON_stringify sample_platform
        (JObj [(js ''operation'', JStr (js ''divide'')), (js ''a'', JNum 1), (js ''b'', JNum 4),
               (js ''result'', JNum (1 / 4))]))],
      tr_isError = None\<rparr>"
    by (simp add: to_double_quarter)
  with by_zero zero(3) show ?thesis by simp
qed

text \<open>
  The operands \<open>2\<^sup>1\<^sup>0\<^sup>2\<^sup>3\<close> and 1/2: the divisor is not zero, the quotient of the doubles is
  \<open>Infinity\<close>, and the text of the tool result is that of the object whose \<open>result\<close> is
  \<open>null\<close>, not the real quotient \<open>2\<^sup>1\<^sup>0\<^sup>2\<^sup>4\<close>.
\<close>

theorem quotient_beyond_the_doubles_is_written_null:
  "(1 / 2 :: real) \<noteq> 0 \<and>
   number_divide (Finite (2 ^ 1023)) (Finite (1 / 2)) = PosInfinity \<and>
   (\<forall>lib. calculate lib
      (JObj [(js ''operation'', JStr (js ''divide'')), (js ''a'', JNum (2 ^ 1023)),
             (js ''b'', JNum (1 / 2))]) =
      \<lparr>tr_content = [text_content (JSON_text lib
         (JObj [(js ''operation'', JStr (js ''divide'')), (js ''a'', JNum (2 ^ 1023)),
                (js ''b'', JNum (1 / 2)), (js ''result'', JNull)]))],
       tr_isError = None\<rparr>) \<and>
   JNull \<noteq> JNum (2 ^ 1023 / (1 / 2))"
proof -
  let ?kvs = "[(js ''operation'', JStr (js ''divide'')), (js ''a'', JNum (2 ^ 1023)),
               (js ''b'', JNum (1 / 2))]"
  have quotient: "number_divide (Finite (2 ^ 1023)) (Finite (1 / 2)) = PosInfinity"
    using to_double_beyond by simp
  have "CalculateInputSchema (JObj ?kvs) = Inr (Op_divide, Finite (2 ^ 1023), Finite (1 / 2))"
    by (simp add: CalculateInputSchema_def z_enum_def z_number_def property_def js_def)
  then have "calculate lib (JObj ?kvs) =
      \<lparr>tr_content = [text_content (JSON_text lib
         (JObj [(js ''operation'', JStr (js ''divide'')), (js ''a'', JNum (2 ^ 1023)),
                (js ''b'', JNum (1 / 2)), (js ''result'', JNull)]))],
       tr_isError = None\<rparr>" for lib
    using to_double_beyond
    by (simp add: calculate_def operation_name_def JSON_stringify_def del: power_numeral)
  with quotient show ?thesis by simp
qed

lemma bitor_zero_unit:
  assumes "0 \<le> r" and "r < 1"
  shows "bitor_zero (r * 16) = \<lfloor>r * 16\<rfloor>" and "0 \<le> \<lfloor>r * 16\<rfloor>" and "\<lfloor>r * 16\<rfloor> \<le> 15"
proof -
  show lower: "0 \<le> \<lfloor>r * 16\<rfloor>" using assms by simp
  have "r * 16 < 16" using assms by simp
  then have "\<lfloor>r * 16\<rfloor> < 16" by (simp add: floor_less_iff)
  then show upper: "\<lfloor>r * 16\<rfloor> \<le> 15" by simp
  have "sint (word_of_int \<lfloor>r * 16\<rfloor> :: 32 word) = \<lfloor>r * 16\<rfloor>"
    using lower upper by (simp add: sint_sbintrunc' signed_take_bit_int_eq_self)
  then show "bitor_zero (r * 16) = \<lfloor>r * 16\<rfloor>"
    using assms by (simp add: bitor_zero_def not_less mult_nonneg_nonneg)
qed

lemma toString16_digit:
  assumes "0 \<le> v" and "v \<le> 15"
  shows "toString16 v = [hex_digit (nat v)]"
proof -
  from assms have "nat v < 16" by simp
  then have "toString16_nat (nat v) = [hex_digit (nat v)]"
    by (subst toString16_nat.simps) simp
  then show ?thesis using assms by (simp add: toString16_def)
qed

lemma hex_digit_is_hex: "d < 16 \<Longrightarrow> is_hex (hex_digit d)"
  by (auto simp add: is_hex_def hex_digit_def)

lemma variant_bits:
  fixes r :: int
  assumes "0 \<le> r" and "r \<le> 15"
  shows "(r AND 3) OR 8 \<in> {8, 9, 10, 11}"
proof -
  from assms have "r = 0 \<or> r = 1 \<or> r = 2 \<or> r = 3 \<or> r = 4 \<or> r = 5 \<or> r = 6 \<or> r = 7 \<or>
      r = 8 \<or> r = 9 \<or> r = 10 \<or> r = 11 \<or> r = 12 \<or> r = 13 \<or> r = 14 \<or> r = 15"
    by presburger
  then show ?thesis by auto
qed

lemma uuid_digit_x:
  assumes "0 \<le> r" and "r < 1"
  shows "\<exists>c. uuid_digit 120 r = [c] \<and> is_hex c"
proof -
  note b = bitor_zero_unit [OF assms]
  from b have "uuid_digit 120 r = [hex_digit (nat \<lfloor>r * 16\<rfloor>)]"
    by (simp add: uuid_digit_def Let_def toString16_digit)
  moreover from b(2,3) have "nat \<lfloor>r * 16\<rfloor> < 16" by linarith
  ultimately show ?thesis by (simp add: hex_digit_is_hex)
qed

lemma uuid_digit_y:
  assumes "0 \<le> r" and "r < 1"
  shows "\<exists>c. uuid_digit 121 r = [c] \<and> c \<in> {56, 57, 97, 98}"
proof -
  let ?v = "(\<lfloor>r * 16\<rfloor> AND 3) OR 8"
  from bitor_zero_unit [OF assms] have v: "?v \<in> {8, 9, 10, 11}"
    by (intro variant_bits) simp_all
  then have "toString16 ?v = [hex_digit (nat ?v)]"
    by (intro toString16_digit) auto
  moreover have "hex_digit (nat ?v) \<in> {56, 57, 97, 98}"
    using v by (auto simp add: hex_digit_def)
  ultimately show ?thesis
    using bitor_zero_unit(1) [OF assms] by (simp add: uuid_digit_def Let_def)
qed

lemma replace_xy_pattern:
  assumes "\<forall>k. 0 \<le> random k \<and> random k < 1"
  shows "list_all2 uuid_pattern_char t (replace_xy t random k)"
proof (induction t arbitrary: k)
  case Nil
  show ?case by simp
next
  case (Cons c cs)
  from assms have r: "0 \<le> random k" "random k < 1" by simp_all
  show ?case
  proof (cases "c = 120")
    case True
    from uuid_digit_x [OF r] obtain d where d: "uuid_digit 120 (random k) = [d]" "is_hex d"
      by blast
    then have "uuid_pattern_char c d" using True by (simp add: uuid_pattern_char_def)
    with d True Cons.IH [of "Suc k"] show ?thesis by simp
  next
    case False
    show ?thesis
    proof (cases "c = 121")
      case True
      from uuid_digit_y [OF r] obtain d
        where d: "uuid_digit 121 (random k) = [d]" "d \<in> {56, 57, 97, 98}"
        by blast
      then have "uuid_pattern_char c d" using True by (simp add: uuid_pattern_char_def)
      with d True Cons.IH [of "Suc k"] show ?thesis by simp
    next
      case False
      with \<open>c \<noteq> 120\<close> have "uuid_pattern_char c c" by (simp add: uuid_pattern_char_def)
      with False \<open>c \<noteq> 120\<close> Cons.IH [of k] show ?thesis by simp
    qed
  qed
qed

text \<open>
  C7.  Whatever values in [0, 1) the random source produces, the uuid that \<open>generate_uuid\<close>
  returns matches xxxxxxxx-xxxx-4xxx-yxxx-xxxxxxxxxxxx: it has 36 characters, every x is a
  hexadecimal digit, the version nibble is 4 and the variant nibble is one of 8, 9, a, b.
\<close>

theorem generateUuid_matches_v4_pattern:
  assumes "\<forall>k. 0 \<le> Math_random w k \<and> Math_random w k < 1"
  shows "generateUuid lib w =
           \<lparr>tr_content = [text_content (JSON_stringify lib
              (JObj [(js ''uuid'', JStr (uuid_of (Math_random w)))]))], tr_isError = None\<rparr> \<and>
         matches_uuid_pattern (uuid_of (Math_random w)) \<and>
         length (uuid_of (Math_random w)) = 36 \<and>
         uuid_of (Math_random w) ! 14 = 52 \<and>
         uuid_of (Math_random w) ! 19 \<in> {56, 57, 97, 98}"
proof -
  let ?u = "uuid_of (Math_random w)"
  let ?t = "js ''xxxxxxxx-xxxx-4xxx-yxxx-xxxxxxxxxxxx''"
  have m: "list_all2 uuid_pattern_char ?t ?u"
    unfolding uuid_of_def by (rule replace_xy_pattern [OF assms])
  have len: "length ?u = 36"
    using list_all2_lengthD [OF m] by (simp add: js_def)
  have "uuid_pattern_char (?t ! 14) (?u ! 14)" "uuid_pattern_char (?t ! 19) (?u ! 19)"
    using m len by (simp_all add: list_all2_conv_all_nth)
  then have "?u ! 14 = 52" "?u ! 19 \<in> {56, 57, 97, 98}"
    by (simp_all add: js_def uuid_pattern_char_def)
  then show ?thesis using m len
    by (simp add: generateUuid_def matches_uuid_pattern_def)
qed

theorem generateUuid_matches_v4_pattern_witness:
  "(\<forall>k. 0 \<le> Math_random sample_world k \<and> Math_random sample_world k < 1) \<and>
   matches_uuid_pattern (uuid_of (Math_random sample_world)) \<and>
   length (uuid_of (Math_random sample_world)) = 36"
proof -
  have unit: "\<forall>k. 0 \<le> Math_random sample_world k \<and> Math_random sample_world k < 1"
    by (simp add: sample_world_def)
  from generateUuid_matches_v4_pattern [OF unit] show ?thesis using unit by blast
qed

text \<open>
  C8.  The uuid is the image of the values of \<open>Math.random()\<close>, which is not a
  cryptographically secure source: in a process whose generator returns 1/2 at every call
  the uuid is 88888888-8888-4888-8888-888888888888.
\<close>

theorem generateUuid_follows_Math_random:
  "uuid_of (\<lambda>k. 1 / 2) = js ''88888888-8888-4888-8888-888888888888''"
  by (simp add: uuid_of_def js_def uuid_digit_def bitor_zero_def toString16_def
      toString16_nat.simps hex_digit_def)

subsection \<open>text_stats\<close>

lemma split_re_no_match:
  assumes "\<forall>c \<in> set s. \<not> sep c"
  shows "split_re sep s = [s]"
proof -
  from assms have none: "dropWhile (\<lambda>c. \<not> sep c) s = []" by simp
  show ?thesis by (subst split_re.simps) (simp add: none)
qed

lemma split_re_match:
  assumes "dropWhile (\<lambda>c. \<not> sep c) s = c # rest"
  shows "split_re sep s = takeWhile (\<lambda>c. \<not> sep c) s # split_re sep (dropWhile sep rest)"
  by (subst split_re.simps) (simp add: assms)

lemma split_re_not_Nil: "split_re sep s \<noteq> []"
  by (subst split_re.simps) (simp split: list.split)

lemma hd_split_re: "hd (split_re sep s) = takeWhile (\<lambda>c. \<not> sep c) s"
proof (cases "dropWhile (\<lambda>c. \<not> sep c) s")
  case Nil
  then have free: "\<forall>c \<in> set s. \<not> sep c" by simp
  then have whole: "takeWhile (\<lambda>c. \<not> sep c) s = s" by (simp add: takeWhile_eq_all_conv)
  have "split_re sep s = [s]" using free by (rule split_re_no_match)
  then show ?thesis unfolding whole by simp
next
  case (Cons c rest)
  then show ?thesis by (simp add: split_re_match)
qed

text \<open>The pieces that \<open>split\<close> returns are separated pieces of the text.\<close>

lemma split_re_separated:
  "\<exists>seps. separated sep (split_re sep xs) seps \<and> weave (split_re sep xs) seps = xs"
proof (induction sep xs rule: split_re.induct)
  case (1 sep s)
  show ?case
  proof (cases "dropWhile (\<lambda>c. \<not> sep c) s")
    case Nil
    then have free: "\<forall>c \<in> set s. \<not> sep c" by simp
    then have "separated sep (split_re sep s) [] \<and> weave (split_re sep s) [] = s"
      by (simp add: split_re_no_match list_all_iff)
    then show ?thesis ..
  next
    case (Cons c rest)
    let ?p = "takeWhile (\<lambda>c. \<not> sep c) s"
    let ?d = "dropWhile sep rest"
    from 1 [OF Cons] obtain seps
      where IH: "separated sep (split_re sep ?d) seps" "weave (split_re sep ?d) seps = ?d"
      by blast
    obtain q ps where qps: "split_re sep ?d = q # ps"
      using split_re_not_Nil [of sep ?d] by (cases "split_re sep ?d") auto
    have s: "s = ?p @ c # rest" using Cons by (metis takeWhile_dropWhile_id)
    have c: "sep c" using Cons by (metis hd_dropWhile list.sel(1) list.distinct(1))
    have q: "q = takeWhile (\<lambda>c. \<not> sep c) ?d" using hd_split_re [of sep ?d] qps by simp
    have maximal: "q = [] \<longrightarrow> ps = []"
    proof
      assume "q = []"
      have "?d = []"
      proof (rule ccontr)
        assume ne: "?d \<noteq> []"
        then have "\<not> sep (hd ?d)" by (rule hd_dropWhile)
        with ne q \<open>q = []\<close> show False by (cases ?d) auto
      qed
      moreover have "split_re sep [] = [[]]" by (simp add: split_re_no_match)
      ultimately have "split_re sep ?d = [[]]" by (simp only:)
      with qps show "ps = []" by simp
    qed
    let ?s = "c # takeWhile sep rest"
    have whole: "split_re sep s = ?p # q # ps"
      using split_re_match [OF Cons] qps by simp
    have "separated sep (?p # q # ps) (?s # seps)"
      using IH(1) qps c maximal by (auto simp add: list_all_iff dest: set_takeWhileD)
    moreover have "weave (?p # q # ps) (?s # seps) = s"
      using IH(2) qps s by simp
    ultimately show ?thesis unfolding whole by blast
  qed
qed

text \<open>They are the only ones: separated pieces of a text are what \<open>split\<close> returns.\<close>

lemma separated_split_re:
  "separated sep ps seps \<Longrightarrow> split_re sep (weave ps seps) = ps"
proof (induction sep ps seps rule: separated.induct)
  case (1 sep p)
  then show ?case by (simp add: split_re_no_match list_all_iff)
next
  case (2 sep p q ps s seps)
  let ?R = "weave (q # ps) seps"
  from 2(2) have p: "\<forall>c \<in> set p. \<not> sep c" and s: "s \<noteq> []" "\<forall>c \<in> set s. sep c"
    and maximal: "q = [] \<longrightarrow> ps = []" and rest: "separated sep (q # ps) seps"
    by (simp_all add: list_all_iff)
  from s obtain c s0 where cs: "s = c # s0" "sep c" "\<forall>c \<in> set s0. sep c"
    by (cases s) auto
  have IH: "split_re sep ?R = q # ps" using 2(1) rest by simp
  have q_free: "\<forall>c \<in> set q. \<not> sep c"
    using rest by (cases ps; cases seps) (simp_all add: list_all_iff)
  have R: "dropWhile sep ?R = ?R"
  proof (cases q)
    case Nil
    with maximal show ?thesis by simp
  next
    case (Cons a q')
    with q_free have "\<not> sep a" by simp
    moreover have "?R = a # tl ?R" using Cons by (cases ps; cases seps) simp_all
    ultimately show ?thesis by (metis dropWhile.simps(2))
  qed
  have drop: "dropWhile (\<lambda>c. \<not> sep c) (p @ s @ ?R) = c # (s0 @ ?R)"
    using p cs by (simp add: dropWhile_append3)
  have take: "takeWhile (\<lambda>c. \<not> sep c) (p @ s @ ?R) = p"
    using p cs by simp
  have "dropWhile sep (s0 @ ?R) = ?R"
    using cs(3) R by (simp add: dropWhile_append2)
  with split_re_match [OF drop] take IH show ?case by simp
qed simp_all

lemma trim_Nil_iff: "trim s = [] \<longleftrightarrow> (\<forall>c \<in> set s. is_space c)"
proof -
  have "trim s = [] \<longleftrightarrow> (\<forall>c \<in> set (dropWhile is_space s). is_space c)"
    by (simp add: trim_def)
  also have "\<dots> \<longleftrightarrow> dropWhile is_space s = []"
  proof
    assume all: "\<forall>c \<in> set (dropWhile is_space s). is_space c"
    show "dropWhile is_space s = []"
    proof (rule ccontr)
      assume ne: "dropWhile is_space s \<noteq> []"
      then have "\<not> is_space (hd (dropWhile is_space s))" by (rule hd_dropWhile)
      with all ne show False by (metis hd_in_set)
    qed
  next
    assume "dropWhile is_space s = []"
    then show "\<forall>c \<in> set (dropWhile is_space s). is_space c"
      by (simp only: list.set ball_empty)
  qed
  also have "\<dots> \<longleftrightarrow> (\<forall>c \<in> set s. is_space c)" by simp
  finally show ?thesis .
qed

lemma foldl_lengths: "foldl (\<lambda>sum w. sum + length w) n ws = n + sum_list (map length ws)"
  by (induction ws arbitrary: n) simp_all

lemma toFixed2_nearest:
  assumes "0 \<le> x"
  shows "\<exists>n :: int. toFixed2 x = of_int n / 100" and "\<bar>toFixed2 x - x\<bar> \<le> 1 / 200"
proof -
  let ?n = "\<lfloor>x * 100 + 1 / 2\<rfloor>"
  have t: "toFixed2 x = of_int ?n / 100" using assms by (simp add: toFixed2_def)
  then show "\<exists>n :: int. toFixed2 x = of_int n / 100" ..
  have "of_int ?n \<le> x * 100 + 1 / 2" "x * 100 + 1 / 2 < of_int ?n + 1" by linarith+
  then have "of_int ?n / 100 - x \<le> 1 / 200" "x - of_int ?n / 100 \<le> 1 / 200" by linarith+
  then show "\<bar>toFixed2 x - x\<bar> \<le> 1 / 200" unfolding t by (intro abs_leI) linarith+
qed

lemma textStats_valid:
  assumes "property kvs ''text'' = Some (JStr t)" and "t \<noteq> []" and "length t \<le> 50000"
  shows "textStats lib (JObj kvs) =
           \<lparr>tr_content = [text_content (JSON_stringify lib
              (JObj [(js ''characters'', JNum (real (length t))),
                     (js ''words'', JNum (real (length
                        (filter (\<lambda>w. w \<noteq> []) (split_re is_space (trim t)))))),
                     (js ''sentences'', JNum (real (length
                        (filter (\<lambda>s. trim s \<noteq> []) (split_re is_terminator t))))),
                     (js ''averageWordLength'', JNum
                        (if filter (\<lambda>w. w \<noteq> []) (split_re is_space (trim t)) = [] then 0
                         else toFixed2
                           (real (sum_list (map length
                              (filter (\<lambda>w. w \<noteq> []) (split_re is_space (trim t))))) /
                            real (length
                              (filter (\<lambda>w. w \<noteq> []) (split_re is_space (trim t)))))))]))],
            tr_isError = None\<rparr>"
proof -
  have parsed: "TextStatsInputSchema (JObj kvs) = Inr t"
    using assms by (simp add: TextStatsInputSchema_def z_string_def)
  show ?thesis by (simp add: textStats_def parsed Let_def foldl_lengths)
qed

lemma hello_tokens:
  "split_re is_space (trim (js ''Hello world. This is a test.'')) =
     [js ''Hello'', js ''world.'', js ''This'', js ''is'', js ''a'', js ''test.'']"
  by (simp add: js_def trim_def is_space_def split_re.simps)

lemma hello_runs:
  "split_re is_terminator (js ''Hello world. This is a test.'') =
     [js ''Hello world'', js '' This is a test'', []]"
  by (simp add: js_def is_terminator_def split_re.simps)

lemma hello_args:
  "property [(js ''text'', JStr (js ''Hello world. This is a test.''))] ''text'' =
     Some (JStr (js ''Hello world. This is a test.''))"
  "js ''Hello world. This is a test.'' \<noteq> []"
  "1 \<le> length (js ''Hello world. This is a test.'')"
  "length (js ''Hello world. This is a test.'') \<le> 50000"
  by (simp_all add: property_def js_def)

lemma hello_stats:
  "textStats lib (JObj [(js ''text'', JStr (js ''Hello world. This is a test.''))]) =
     \<lparr>tr_content = [text_content (JSON_stringify lib
        (JObj [(js ''characters'', JNum 28), (js ''words'', JNum 6), (js ''sentences'', JNum 2),
               (js ''averageWordLength'', JNum (383 / 100))]))],
      tr_isError = None\<rparr>"
proof -
  let ?t = "js ''Hello world. This is a test.''"
  have words: "filter (\<lambda>w. w \<noteq> []) (split_re is_space (trim ?t)) =
      [js ''Hello'', js ''world.'', js ''This'', js ''is'', js ''a'', js ''test.'']"
    unfolding hello_tokens by (simp add: js_def)
  have sentences: "filter (\<lambda>s. trim s \<noteq> []) (split_re is_terminator ?t) =
      [js ''Hello world'', js '' This is a test'']"
    unfolding hello_runs by (simp add: js_def trim_def is_space_def)
  have round: "toFixed2 (23 / 6) = 383 / 100" by (simp add: toFixed2_def)
  show ?thesis
    unfolding textStats_valid [OF hello_args(1,2,4)] words sentences
    by (simp add: js_def round)
qed

text \<open>
  C6.  For a text of 1 to 50000 code units, \<open>text_stats\<close> returns the serialised object of
  \<open>characters\<close>, the length of the text; \<open>words\<close>, the number of non-empty pieces of the
  trimmed text between its maximal runs of white space; \<open>sentences\<close>, the number of pieces
  of the text between its maximal runs of '.', '!' and '?' that are not blank (the pieces
  are determined by the text in both cases); and
  \<open>averageWordLength\<close>, 0 when there is no word and otherwise a multiple of 1/100 within
  1/200 of the mean length of the words.  For 'Hello world. This is a test.' these are
  28, 6, 2 and 3.83.
\<close>

theorem textStats_statistics:
  assumes "property kvs ''text'' = Some (JStr t)" and "1 \<le> length t" and "length t \<le> 50000"
  shows "(\<exists>tokens gaps runs stops average.
           separated is_space tokens gaps \<and> weave tokens gaps = trim t \<and>
           (\<forall>ts gs. separated is_space ts gs \<and> weave ts gs = trim t \<longrightarrow> ts = tokens) \<and>
           separated is_terminator runs stops \<and> weave runs stops = t \<and>
           (\<forall>rs ss. separated is_terminator rs ss \<and> weave rs ss = t \<longrightarrow> rs = runs) \<and>
           textStats lib (JObj kvs) =
             \<lparr>tr_content = [text_content (JSON_stringify lib
                (JObj [(js ''characters'', JNum (real (length t))),
                       (js ''words'', JNum (real (length (filter (\<lambda>w. w \<noteq> []) tokens)))),
                       (js ''sentences'', JNum (real (length (filter (\<lambda>r. \<not> blank r) runs)))),
                       (js ''averageWordLength'', JNum average)]))],
              tr_isError = None\<rparr> \<and>
           (if filter (\<lambda>w. w \<noteq> []) tokens = [] then average = 0
            else (\<exists>n :: int. average = of_int n / 100) \<and>
                 \<bar>average - real (sum_list (map length (filter (\<lambda>w. w \<noteq> []) tokens))) /
                              real (length (filter (\<lambda>w. w \<noteq> []) tokens))\<bar> \<le> 1 / 200)) \<and>
         textStats lib (JObj [(js ''text'', JStr (js ''Hello world. This is a test.''))]) =
           \<lparr>tr_content = [text_content (JSON_stringify lib
              (JObj [(js ''characters'', JNum 28), (js ''words'', JNum 6),
                     (js ''sentences'', JNum 2),
                     (js ''averageWordLength'', JNum (383 / 100))]))],
            tr_isError = None\<rparr>"
proof -
  let ?tokens = "split_re is_space (trim t)"
  let ?runs = "split_re is_terminator t"
  let ?words = "filter (\<lambda>w. w \<noteq> []) ?tokens"
  let ?mean = "real (sum_list (map length ?words)) / real (length ?words)"
  let ?average = "if ?words = [] then 0 else toFixed2 ?mean"
  obtain gaps where gaps: "separated is_space ?tokens gaps" "weave ?tokens gaps = trim t"
    using split_re_separated [of is_space "trim t"] by blast
  obtain stops where stops: "separated is_terminator ?runs stops" "weave ?runs stops = t"
    using split_re_separated [of is_terminator t] by blast
  have "t \<noteq> []" using assms(2) by auto
  note stats = textStats_valid [OF assms(1) this assms(3), of lib]
  have sentences: "filter (\<lambda>s. trim s \<noteq> []) ?runs = filter (\<lambda>r. \<not> blank r) ?runs"
    by (rule filter_cong) (simp_all add: trim_Nil_iff blank_def list_all_iff)
  have rounding: "if ?words = [] then ?average = 0
      else (\<exists>n :: int. ?average = of_int n / 100) \<and> \<bar>?average - ?mean\<bar> \<le> 1 / 200"
    using toFixed2_nearest [of ?mean] by simp
  have only_tokens: "\<forall>ts gs. separated is_space ts gs \<and> weave ts gs = trim t \<longrightarrow> ts = ?tokens"
    using separated_split_re [of is_space] by metis
  have only_runs: "\<forall>rs ss. separated is_terminator rs ss \<and> weave rs ss = t \<longrightarrow> rs = ?runs"
    using separated_split_re [of is_terminator] by metis
  from gaps stops only_tokens only_runs stats [unfolded sentences] rounding hello_stats [of lib]
  show ?thesis by blast
qed

theorem textStats_statistics_witness:
  "property [(js ''text'', JStr (js ''Hello world. This is a test.''))] ''text'' =
     Some (JStr (js ''Hello world. This is a test.'')) \<and>
   1 \<le> length (js ''Hello world. This is a test.'') \<and>
   length (js ''Hello world. This is a test.'') \<le> 50000 \<and>
   textStats sample_platform (JObj [(js ''text'', JStr (js ''Hello world. This is a test.''))]) =
     \<lparr>tr_content = [text_content (JSON_stringify sample_platform
        (JObj [(js ''characters'', JNum 28), (js ''words'', JNum 6), (js ''sentences'', JNum 2),
               (js ''averageWordLength'', JNum (383 / 100))]))],
      tr_isError = None\<rparr>"
  using textStats_statistics [OF hello_args(1,3,4), of sample_platform] hello_args(1,3,4)
  by blast

section \<open>The memory tools\<close>

lemma columns_distinct:
  "js ''updated_at'' \<noteq> js ''content''" "js ''updated_at'' \<noteq> js ''type''"
  "js ''updated_at'' \<noteq> js ''tags''" "js ''updated_at'' \<noteq> js ''importance''"
  "js ''content'' \<noteq> js ''type''" "js ''content'' \<noteq> js ''tags''"
  "js ''content'' \<noteq> js ''importance''" "js ''type'' \<noteq> js ''tags''"
  "js ''type'' \<noteq> js ''importance''" "js ''tags'' \<noteq> js ''importance''"
  by (simp_all add: js_def)

lemma updateData_columns:
  "updateData now input (js ''updated_at'') = Some (JStr now)"
  "updateData now input (js ''content'') = map_option JStr (upd_content input)"
  "updateData now input (js ''type'') =
     map_option (\<lambda>t. JStr (MemoryType_name t)) (upd_type input)"
  "updateData now input (js ''tags'') =
     map_option (\<lambda>tags. JArr (map JStr tags)) (upd_tags input)"
  "updateData now input (js ''importance'') = map_option JNum (upd_importance input)"
  using columns_distinct
  by (simp_all add: updateData_def Let_def split: option.split)

lemma updateData_dom:
  "dom (updateData now input) \<subseteq>
     {js ''updated_at'', js ''content'', js ''type'', js ''tags'', js ''importance''}"
  by (auto simp add: updateData_def Let_def split: option.splits if_splits)

lemma MemoryTypeSchema_name: "MemoryTypeSchema path (Some (JStr (MemoryType_name t))) = Inr t"
  by (cases t) (simp_all add: MemoryTypeSchema_def z_enum_def MemoryType_name_def js_def)

lemma strings_of_map_JStr: "strings_of (map JStr xs) = xs"
  by (induction xs) (simp_all add: strings_of_def)

lemma set_columns_updateData:
  "set_columns (updateData now input) row =
     row\<lparr>mem_content := (case upd_content input of Some c \<Rightarrow> c | None \<Rightarrow> mem_content row),
         mem_type := (case upd_type input of Some t \<Rightarrow> t | None \<Rightarrow> mem_type row),
         mem_tags := (case upd_tags input of Some g \<Rightarrow> Some g | None \<Rightarrow> mem_tags row),
         mem_importance := (case upd_importance input of Some n \<Rightarrow> Some n
                            | None \<Rightarrow> mem_importance row),
         mem_updated_at := now\<rparr>"
  by (simp add: set_columns_def updateData_columns MemoryTypeSchema_name strings_of_map_JStr
      split: option.split)

lemma schema_sample_update:
  "MemoryUpdateInputSchema sample_update =
     Inr \<lparr>upd_userId = js ''user123'', upd_id = js ''m1'',
          upd_content = Some (js ''Prefers light mode''), upd_type = None, upd_tags = None,
          upd_importance = None\<rparr>"
  by (simp add: MemoryUpdateInputSchema_def sample_update_def property_def z_string_def
      z_optional_def js_def)

lemma client_of_sample_process:
  "getSupabaseClient sample_process =
     Inr (\<lparr>client_url = js ''https://example.supabase.co'', client_key = js ''anon-key''\<rparr>,
          sample_process\<lparr>supabaseInstance :=
            Some \<lparr>client_url = js ''https://example.supabase.co'',
                  client_key = js ''anon-key''\<rparr>\<rparr>)"
  by (simp add: getSupabaseClient_def sample_process_def or_else_def Let_def js_def)

lemma sample_backend_sound: "fault sample_backend = None"
  by (simp add: sample_backend_def)

text \<open>
  C9.  A valid \<open>memory_update\<close> that reaches the store sends an update whose payload
  holds \<open>updated_at\<close>, set to the current time, and of \<open>content\<close>, \<open>type\<close>, \<open>tags\<close> and
  \<open>importance\<close> exactly those that the input supplies, with the supplied values; on the
  selected record every omitted field keeps its value and \<open>updated_at\<close> becomes the
  current time, and every other record is left as it is.
\<close>

theorem memoryUpdate_changes_supplied_fields_only:
  assumes "MemoryUpdateInputSchema args = Inr input"
    and "getSupabaseClient p = Inr (client, p')"
    and "fault b = None"
  shows "updateData (Date_toISOString w) input (js ''updated_at'') =
           Some (JStr (Date_toISOString w)) \<and>
         updateData (Date_toISOString w) input (js ''content'') =
           map_option JStr (upd_content input) \<and>
         updateData (Date_toISOString w) input (js ''type'') =
           map_option (\<lambda>t. JStr (MemoryType_name t)) (upd_type input) \<and>
         updateData (Date_toISOString w) input (js ''tags'') =
           map_option (\<lambda>tags. JArr (map JStr tags)) (upd_tags input) \<and>
         updateData (Date_toISOString w) input (js ''importance'') =
           map_option JNum (upd_importance input) \<and>
         dom (updateData (Date_toISOString w) input) \<subseteq>
           {js ''updated_at'', js ''content'', js ''type'', js ''tags'', js ''importance''} \<and>
         (\<exists>result. memoryUpdate lib w b p table args =
            Inr (result, p',
                 map (\<lambda>row. if selected (upd_userId input) (upd_id input) row
                         then row\<lparr>mem_content := (case upd_content input of
                                       Some c \<Rightarrow> c | None \<Rightarrow> mem_content row),
                                  mem_type := (case upd_type input of
                                       Some t \<Rightarrow> t | None \<Rightarrow> mem_type row),
                                  mem_tags := (case upd_tags input of
                                       Some g \<Rightarrow> Some g | None \<Rightarrow> mem_tags row),
                                  mem_importance := (case upd_importance input of
                                       Some n \<Rightarrow> Some n | None \<Rightarrow> mem_importance row),
                                  mem_updated_at := Date_toISOString w\<rparr>
                         else row) table))"
proof -
  have "\<exists>result. memoryUpdate lib w b p table args =
      Inr (result, p', store_update (updateData (Date_toISOString w) input)
                         (upd_userId input) (upd_id input) table)"
    using assms by (simp add: memoryUpdate_def Let_def split: list.split)
  then have sent: "\<exists>result. memoryUpdate lib w b p table args =
      Inr (result, p',
           map (\<lambda>row. if selected (upd_userId input) (upd_id input) row
                   then row\<lparr>mem_content := (case upd_content input of
                                 Some c \<Rightarrow> c | None \<Rightarrow> mem_content row),
                            mem_type := (case upd_type input of
                                 Some t \<Rightarrow> t | None \<Rightarrow> mem_type row),
                            mem_tags := (case upd_tags input of
                                 Some g \<Rightarrow> Some g | None \<Rightarrow> mem_tags row),
                            mem_importance := (case upd_importance input of
                                 Some n \<Rightarrow> Some n | None \<Rightarrow> mem_importance row),
                            mem_updated_at := Date_toISOString w\<rparr>
                   else row) table)"
    unfolding store_update_def set_columns_updateData .
  show ?thesis
    using updateData_dom [of "Date_toISOString w" input] sent
    by (simp only: updateData_columns simp_thms)
qed

theorem memoryUpdate_changes_supplied_fields_only_witness:
  "fault sample_backend = None \<and>
   updateData (Date_toISOString sample_world)
     \<lparr>upd_userId = js ''user123'', upd_id = js ''m1'',
      upd_content = Some (js ''Prefers light mode''), upd_type = None, upd_tags = None,
      upd_importance = None\<rparr> (js ''type'') = None \<and>
   (\<exists>result p'. memoryUpdate sample_platform sample_world sample_backend sample_process
        [sample_memory] sample_update =
      Inr (result, p',
           [sample_memory\<lparr>mem_content := js ''Prefers light mode'',
                          mem_updated_at := js ''2026-01-01T00:00:00.000Z''\<rparr>]))"
proof -
  note at_sample = memoryUpdate_changes_supplied_fields_only
    [OF schema_sample_update client_of_sample_process sample_backend_sound,
     of sample_world sample_platform "[sample_memory]"]
  have chosen: "selected (js ''user123'') (js ''m1'') sample_memory"
    by (simp add: selected_def sample_memory_def)
  from at_sample have "updateData (Date_toISOString sample_world)
     \<lparr>upd_userId = js ''user123'', upd_id = js ''m1'',
      upd_content = Some (js ''Prefers light mode''), upd_type = None, upd_tags = None,
      upd_importance = None\<rparr> (js ''type'') = None"
    by simp
  moreover from at_sample chosen
  have "\<exists>result p'. memoryUpdate sample_platform sample_world sample_backend sample_process
        [sample_memory] sample_update =
      Inr (result, p',
           [sample_memory\<lparr>mem_content := js ''Prefers light mode'',
                          mem_updated_at := js ''2026-01-01T00:00:00.000Z''\<rparr>])"
    by (simp add: sample_world_def sample_memory_def) blast
  ultimately show ?thesis using sample_backend_sound by blast
qed

section \<open>Argument validation through the dispatcher\<close>

text \<open>A utility tool reports arguments that fail its schema in band.\<close>

lemma utility_tools_report_in_band:
  assumes "property params ''name'' = Some (JStr name)"
    and "args = (case property params ''arguments'' of
           None \<Rightarrow> JObj [] | Some a \<Rightarrow> if falsy a then JObj [] else a)"
  shows "name = js ''echo'' \<Longrightarrow> EchoInputSchema args = Inl issues \<Longrightarrow>
           handleToolsCall lib w i (Some params) =
             createResponse i (ToolCallResult (invalid_input lib issues))"
    and "name = js ''calculate'' \<Longrightarrow> CalculateInputSchema args = Inl issues \<Longrightarrow>
           handleToolsCall lib w i (Some params) =
             createResponse i (ToolCallResult (invalid_input lib issues))"
    and "name = js ''text_stats'' \<Longrightarrow> TextStatsInputSchema args = Inl issues \<Longrightarrow>
           handleToolsCall lib w i (Some params) =
             createResponse i (ToolCallResult (invalid_input lib issues))"
proof -
  have registered: "\<exists>t \<in> set toolDefinitions. tool_name t = js ''echo''"
    "\<exists>t \<in> set toolDefinitions. tool_name t = js ''calculate''"
    "\<exists>t \<in> set toolDefinitions. tool_name t = js ''text_stats''"
    by (simp_all add: toolDefinitions_def)
  have routed: "executeTool lib w (js ''echo'') args = echo lib args"
    "executeTool lib w (js ''calculate'') args = calculate lib args"
    "executeTool lib w (js ''text_stats'') args = textStats lib args"
    by (simp_all add: executeTool_def js_def)
  show "name = js ''echo'' \<Longrightarrow> EchoInputSchema args = Inl issues \<Longrightarrow>
           handleToolsCall lib w i (Some params) =
             createResponse i (ToolCallResult (invalid_input lib issues))"
    using assms registered(1) routed(1)
    unfolding handleToolsCall_def handleToolsCall_using_def Let_def
    by (simp add: echo_def)
  show "name = js ''calculate'' \<Longrightarrow> CalculateInputSchema args = Inl issues \<Longrightarrow>
           handleToolsCall lib w i (Some params) =
             createResponse i (ToolCallResult (invalid_input lib issues))"
    using assms registered(2) routed(2)
    unfolding handleToolsCall_def handleToolsCall_using_def Let_def
    by (simp add: calculate_def)
  show "name = js ''text_stats'' \<Longrightarrow> TextStatsInputSchema args = Inl issues \<Longrightarrow>
           handleToolsCall lib w i (Some params) =
             createResponse i (ToolCallResult (invalid_input lib issues))"
    using assms registered(3) routed(3)
    unfolding handleToolsCall_def handleToolsCall_using_def Let_def
    by (simp add: textStats_def)
qed

text \<open>A memory tool throws \<open>InvalidParamsError\<close> with the messages of the issues.\<close>

lemma memory_tools_throw:
  "MemorySaveInputSchema args = Inl issues \<Longrightarrow>
     memorySave lib b p table args = Inl (InvalidParamsError (validation_message lib issues))"
  "MemoryUpdateInputSchema args = Inl issues \<Longrightarrow>
     memoryUpdate lib w b p table args = Inl (InvalidParamsError (validation_message lib issues))"
  by (simp_all add: memorySave_def memoryUpdate_def)

text \<open>The dispatcher turns an \<open>InvalidParamsError\<close> of its router into the error -32602.\<close>

lemma dispatcher_converts_InvalidParamsError:
  assumes "property params ''name'' = Some (JStr name)"
    and "\<exists>t \<in> set toolDefinitions. tool_name t = name"
    and "router name (case property params ''arguments'' of
           None \<Rightarrow> JObj [] | Some a \<Rightarrow> if falsy a then JObj [] else a) =
         Inl (InvalidParamsError message)"
  shows "handleToolsCall_using router i (Some params) =
           createErrorResponse i (- 32602) (js ''Invalid params'') (Some (MessageData message))"
  using assms unfolding handleToolsCall_using_def Let_def
  by (simp add: INVALID_PARAMS_def)

lemma memory_names_unknown:
  "js ''memory_save'' \<notin> tool_name ` set toolDefinitions"
  "js ''memory_search'' \<notin> tool_name ` set toolDefinitions"
  "js ''memory_forget'' \<notin> tool_name ` set toolDefinitions"
  "js ''memory_list'' \<notin> tool_name ` set toolDefinitions"
  "js ''memory_update'' \<notin> tool_name ` set toolDefinitions"
  by (simp_all add: toolDefinitions_def js_def)

lemma name_of_call: "property [(js ''name'', JStr name), (js ''arguments'', a)] ''name'' = Some (JStr name)"
  by (simp add: property_def)

text \<open>
  C1.  The names of the memory tools are not among the tool definitions and the tool router
  has no case for them.  \<open>memory_save\<close> called with the empty object throws
  \<open>InvalidParamsError\<close> with the messages of the two missing fields, but a \<open>tools/call\<close>
  of a memory tool never reaches its handler, whatever the arguments: the dispatcher
  answers 'Unknown tool' with the code -32602 and no data.
\<close>

theorem memory_tool_calls_are_unknown_tools:
  "memorySave lib b p table (JObj []) =
     Inl (InvalidParamsError
       (zod_errorMap lib (ZodIssue invalid_type [Key (js ''userId'')] None) @ js '', '' @
        zod_errorMap lib (ZodIssue invalid_type [Key (js ''content'')] None))) \<and>
   handleToolsCall lib w i
     (Some [(js ''name'', JStr (js ''memory_save'')), (js ''arguments'', JObj [])]) =
     \<lparr>res_jsonrpc = js ''2.0'', res_id = i, res_result = None,
      res_error = Some \<lparr>err_code = - 32602, err_message = js ''Unknown tool: memory_save'',
                        err_data = None\<rparr>\<rparr> \<and>
   handleToolsCall lib w i (Some [(js ''name'', JStr (js ''memory_save'')), (js ''arguments'', a)]) =
     createErrorResponse i (- 32602) (js ''Unknown tool: memory_save'') None \<and>
   handleToolsCall lib w i (Some [(js ''name'', JStr (js ''memory_search'')), (js ''arguments'', a)]) =
     createErrorResponse i (- 32602) (js ''Unknown tool: memory_search'') None \<and>
   handleToolsCall lib w i (Some [(js ''name'', JStr (js ''memory_forget'')), (js ''arguments'', a)]) =
     createErrorResponse i (- 32602) (js ''Unknown tool: memory_forget'') None \<and>
   handleToolsCall lib w i (Some [(js ''name'', JStr (js ''memory_list'')), (js ''arguments'', a)]) =
     createErrorResponse i (- 32602) (js ''Unknown tool: memory_list'') None \<and>
   handleToolsCall lib w i (Some [(js ''name'', JStr (js ''memory_update'')), (js ''arguments'', a)]) =
     createErrorResponse i (- 32602) (js ''Unknown tool: memory_update'') None"
proof -
  have "MemorySaveInputSchema (JObj []) =
      Inl [ZodIssue invalid_type [Key (js ''userId'')] None,
           ZodIssue invalid_type [Key (js ''content'')] None]"
    by (simp add: MemorySaveInputSchema_def property_def z_string_def z_default_def
        z_optional_def)
  then have thrown: "memorySave lib b p table (JObj []) =
     Inl (InvalidParamsError
       (zod_errorMap lib (ZodIssue invalid_type [Key (js ''userId'')] None) @ js '', '' @
        zod_errorMap lib (ZodIssue invalid_type [Key (js ''content'')] None)))"
    by (simp add: memorySave_def validation_message_def issue_message_def)
  have unknown: "handleToolsCall lib w i (Some [(js ''name'', JStr name), (js ''arguments'', x)]) =
      createErrorResponse i (- 32602) (js ''Unknown tool: '' @ name) None"
    if "name \<notin> tool_name ` set toolDefinitions" for name x
    using unknown_name_response [OF name_of_call that]
    by (simp add: handleToolsCall_def INVALID_PARAMS_def)
  have literal: "js ''Unknown tool: '' @ js k = js (''Unknown tool: '' @ k)" for k
    by (simp add: js_def)
  note calls = memory_names_unknown [THEN unknown, unfolded literal, simplified]
  from calls(1) [of "JObj []"]
  have "handleToolsCall lib w i
     (Some [(js ''name'', JStr (js ''memory_save'')), (js ''arguments'', JObj [])]) =
     \<lparr>res_jsonrpc = js ''2.0'', res_id = i, res_result = None,
      res_error = Some \<lparr>err_code = - 32602, err_message = js ''Unknown tool: memory_save'',
                        err_data = None\<rparr>\<rparr>"
    by (simp add: createErrorResponse_def)
  with thrown calls show ?thesis by simp
qed

end
